theory Spec2Isabelle
  imports Main "HOL-Library.Sublist"
begin

section \<open>Data model\<close>

text \<open>
  The program is a Flask view \<open>download_latest_files\<close> with four handlers, one per
  resolution strategy, and the link issuer \<open>generate_sas_url\<close>. Everything the code reads
  from outside (process environment, the two MongoDB collections, the blob storage account,
  the clock, the credential and signing calls) is a field of the record \<open>world\<close>; every
  effect the code has on the outside (log lines, credential and signing requests, clock
  reads) is recorded in the record \<open>state\<close>, which each function takes and returns.

  Times are integers (microseconds). Strings are \<open>string\<close>; a value that may be Python's
  \<open>None\<close> (an unset environment variable, an absent dictionary key) is a \<open>string option\<close>.
  The request fields and the fields of the stored documents have the types the data model
  of the specification gives them (strings, lists of dictionaries).
\<close>

type_synonym time = int

datatype exn = KeyError string | ExternalError string

fun exn_str :: "exn \<Rightarrow> string" where
  "exn_str (KeyError k) = [CHR 0x27] @ k @ [CHR 0x27]"
| "exn_str (ExternalError m) = m"

record blob =
  name :: string
  last_modified :: time

text \<open>A MongoDB document of the upload-tracking collection. \<open>asset_add_uploads\<close> is
  \<open>None\<close> when the key is absent; each entry is a dictionary.\<close>

record upload_record =
  ur_company_id :: string
  created_on :: time
  asset_add_uploads :: "(string \<rightharpoonup> string) list option"

text \<open>A document of the generic collection: its string-valued top-level fields
  (\<open>record.get(...)\<close>) and the list under \<open>connection_details\<close> (empty when absent).\<close>

record integration_record =
  ir_company_id :: string
  workbooks :: "string \<rightharpoonup> string"
  connection_details :: "(string \<rightharpoonup> string) list"

text \<open>\<open>BlobSasPermissions\<close>: one flag per permission, all \<open>False\<close> unless given.\<close>

record blob_sas_permissions =
  perm_read :: bool
  perm_add :: bool
  perm_create :: bool
  perm_write :: bool
  perm_delete :: bool
  perm_list :: bool

definition BlobSasPermissions_read :: blob_sas_permissions where
  "BlobSasPermissions_read =
     \<lparr>perm_read = True, perm_add = False, perm_create = False, perm_write = False,
      perm_delete = False, perm_list = False\<rparr>"

text \<open>The keyword arguments of \<open>generate_blob_sas\<close>.\<close>

record sas_args =
  sas_account_name :: "string option"
  sas_container_name :: "string option"
  sas_blob_name :: string
  user_delegation_key :: string
  permission :: blob_sas_permissions
  expiry :: time

text \<open>A parsed CSV (\<open>pd.read_csv(..., dtype=str)\<close>): the columns in order, a cell being a
  string or missing (NaN).\<close>

type_synonym dataframe = "(string \<times> string option list) list"

datatype blob_service_client = BlobServiceClient (account_url: string)

text \<open>
  The outside world of one request.
  \<^item> \<open>getenv\<close>: the process environment, read once when the module is loaded.
  \<^item> \<open>upload_docs\<close>, \<open>generic_docs\<close>: the documents of the two collections, in natural order.
  \<^item> \<open>list_blobs url c\<close>: what iterating \<open>get_container_client(c).list_blobs()\<close> yields for
    the account at \<open>url\<close>: the blobs it yields, and the exception that ends the iteration
    early, if any (the listing is lazy; a failure to open the container is \<open>([], Some e)\<close>).
  \<^item> \<open>download_blob url c n\<close>: the bytes of the blob, or the exception raised.
  \<^item> \<open>read_csv\<close>: the CSV parser, which may raise.
  \<^item> \<open>str_strip\<close>, \<open>str_lower\<close>: the runtime's \<open>str.strip()\<close> and \<open>str.lower()\<close>, which the handler
    applies to the target and pandas applies to each cell (\<open>.str.strip().str.lower()\<close>).
  \<^item> \<open>missing_as_nan\<close>: whether the installed pandas turns a missing cell into the text
    \<open>nan\<close> under \<open>astype(str)\<close> (it does before version 3) or leaves it missing.
  \<^item> \<open>utcnow k\<close>: what the \<open>k\<close>-th call of \<open>datetime.utcnow()\<close> in this request returns.
  \<^item> \<open>get_user_delegation_key url start expiry\<close> and \<open>generate_blob_sas args\<close>: the
    credential and the signing call, each of which may raise.
\<close>

record world =
  getenv :: "string \<Rightarrow> string option"
  upload_docs :: "upload_record list"
  generic_docs :: "integration_record list"
  list_blobs :: "string \<Rightarrow> string option \<Rightarrow> blob list \<times> exn option"
  download_blob :: "string \<Rightarrow> string option \<Rightarrow> string \<Rightarrow> exn + string"
  read_csv :: "string \<Rightarrow> exn + dataframe"
  str_strip :: "string \<Rightarrow> string"
  str_lower :: "string \<Rightarrow> string"
  missing_as_nan :: bool
  utcnow :: "nat \<Rightarrow> time"
  get_user_delegation_key :: "string \<Rightarrow> time \<Rightarrow> time \<Rightarrow> exn + string"
  generate_blob_sas :: "sas_args \<Rightarrow> exn + string"

text \<open>\<open>s.strip().lower()\<close>.\<close>

definition normalise :: "world \<Rightarrow> string \<Rightarrow> string" where
  "normalise w s = str_lower w (str_strip w s)"

text \<open>\<open>astype(str)\<close> on a cell of a column read with \<open>dtype=str\<close>: a string stays, a missing
  cell becomes the text \<open>nan\<close> or stays missing, as the installed pandas has it.\<close>

definition astype_str :: "world \<Rightarrow> string option \<Rightarrow> string option" where
  "astype_str w cell =
     (case cell of
        Some s \<Rightarrow> Some s
      | None \<Rightarrow> (if missing_as_nan w then Some ''nan'' else None))"

text \<open>The account-name column after \<open>astype(str).str.strip().str.lower()\<close>; a cell that is
  still missing stays missing and equals no string.\<close>

definition normalise_column :: "world \<Rightarrow> string option list \<Rightarrow> string option list" where
  "normalise_column w column = map (\<lambda>v. map_option (normalise w) (astype_str w v)) column"

datatype event =
    LogWarning string
  | LogError string
  | KeyRequest string time time
  | SignRequest sas_args

text \<open>\<open>ticks\<close> counts the clock reads so far; \<open>trace\<close> lists the effects, oldest first.\<close>

record state =
  ticks :: nat
  trace :: "event list"

record matched_file =
  mf_file :: string
  download_url :: string

text \<open>The JSON bodies the handlers build with \<open>jsonify\<close>; a response is a body and an
  HTTP status.\<close>

datatype body =
    JsonError string
  | JsonMessage string
  | JsonLink string string
  | JsonFiles string "matched_file list"

type_synonym response = "body \<times> nat"

text \<open>A handler returns its response, or the exception it lets escape, and the state.\<close>

type_synonym outcome = "(exn + response) \<times> state"

record request =
  application_name :: "string option"
  company_id :: "string option"

section \<open>Python primitives\<close>

text \<open>\<open>sub in s\<close> on strings: \<open>sub\<close> occurs in \<open>s\<close> as a contiguous run.\<close>

fun py_in :: "string \<Rightarrow> string \<Rightarrow> bool" where
  "py_in sub [] = (sub = [])"
| "py_in sub (c # cs) = (prefix sub (c # cs) \<or> py_in sub cs)"

text \<open>\<open>max(m :: ms, key=key)\<close>: a later item replaces the current one only when its key is
  strictly greater, so the first maximal item is returned.\<close>

fun py_max :: "('a \<Rightarrow> int) \<Rightarrow> 'a \<Rightarrow> 'a list \<Rightarrow> 'a" where
  "py_max key m [] = m"
| "py_max key m (x # xs) = py_max key (if key m < key x then x else m) xs"

text \<open>\<open>str(x)\<close> inside an f-string, for a value that may be \<open>None\<close>.\<close>

fun py_str :: "string option \<Rightarrow> string" where
  "py_str None = ''None''"
| "py_str (Some s) = s"

text \<open>\<open>timedelta(minutes=m)\<close>. The range of \<open>datetime\<close> is not modelled: every call site of
  the link issuer passes 15 minutes.\<close>

definition timedelta_minutes :: "int \<Rightarrow> time" where
  "timedelta_minutes m = m * 60000000"

section \<open>The metadata store\<close>

text \<open>\<open>collection.find_one({'company_id': c}, sort=[('created_on', -1)])\<close>: the matching
  documents sorted by \<open>created_on\<close> descending (a stable sort), the first one taken.\<close>

definition find_one_latest :: "upload_record list \<Rightarrow> string \<Rightarrow> upload_record option" where
  "find_one_latest docs c =
     (case sort_key (\<lambda>d. - created_on d) (filter (\<lambda>d. ur_company_id d = c) docs) of
        [] \<Rightarrow> None
      | d # _ \<Rightarrow> Some d)"

text \<open>\<open>collection.find_one({"company_id": c})\<close>: the first matching document.\<close>

definition find_one :: "integration_record list \<Rightarrow> string \<Rightarrow> integration_record option" where
  "find_one docs c = find (\<lambda>d. ir_company_id d = c) docs"

section \<open>The link issuer\<close>

text \<open>
  \<open>generate_sas_url\<close> reads the clock twice: once for \<open>expiry\<close>, once for the start of the
  delegation key's window. It asks for the delegation key, then signs; an exception of
  either call escapes.
\<close>

definition generate_sas_url ::
  "world \<Rightarrow> blob_service_client \<Rightarrow> string option \<Rightarrow> string option \<Rightarrow> string \<Rightarrow> int
     \<Rightarrow> state \<Rightarrow> (exn + string) \<times> state" where
  "generate_sas_url w bsc account container blob_name expiry_minutes s =
     (let expiry_time = utcnow w (ticks s) + timedelta_minutes expiry_minutes;
          start = utcnow w (Suc (ticks s));
          s1 = s\<lparr>ticks := ticks s + 2,
                 trace := trace s @ [KeyRequest (account_url bsc) start expiry_time]\<rparr>
      in case get_user_delegation_key w (account_url bsc) start expiry_time of
           Inl e \<Rightarrow> (Inl e, s1)
         | Inr delegation_key \<Rightarrow>
             (let args = \<lparr>sas_account_name = account, sas_container_name = container,
                          sas_blob_name = blob_name, user_delegation_key = delegation_key,
                          permission = BlobSasPermissions_read, expiry = expiry_time\<rparr>;
                  s2 = s1\<lparr>trace := trace s1 @ [SignRequest args]\<rparr>
              in case generate_blob_sas w args of
                   Inl e \<Rightarrow> (Inl e, s2)
                 | Inr sas_token \<Rightarrow>
                     (Inr (''https://'' @ py_str account @ ''.blob.core.windows.net/''
                            @ py_str container @ ''/'' @ blob_name @ ''?'' @ sas_token), s2)))"

text \<open>Every call site leaves \<open>expiry_minutes\<close> at its default.\<close>

definition default_expiry_minutes :: int where
  "default_expiry_minutes = 15"

section \<open>The configuration table\<close>

record app_info =
  containers :: "string option list"
  account_name :: "string option"

definition app_container_mapping :: "world \<Rightarrow> string \<rightharpoonup> app_info" where
  "app_container_mapping w = map_of
     [(''ATnA'', \<lparr>containers = [getenv w ''CONTAINER_ATnA''],
                  account_name = getenv w ''AZURE_STORAGE_ACCOUNT_NAME_ATnA''\<rparr>),
      (''PALOALTO'', \<lparr>containers = [getenv w ''CONTAINER_PALOALTO_1'',
                                     getenv w ''CONTAINER_PALOALTO_2''],
                      account_name = getenv w ''AZURE_STORAGE_ACCOUNT_NAME_PALOALTO''\<rparr>),
      (''EAROI'', \<lparr>containers = [getenv w ''CONTAINER_EAROI''],
                   account_name = getenv w ''AZURE_STORAGE_ACCOUNT_NAME_EAROI''\<rparr>),
      (''F5'', \<lparr>containers = [getenv w ''CONTAINER_F5''],
                account_name = getenv w ''AZURE_STORAGE_ACCOUNT_NAME_F5''\<rparr>),
      (''CHECKPOINT'', \<lparr>containers = [getenv w ''CONTAINER_CHECKPOINT''],
                        account_name = getenv w ''AZURE_STORAGE_ACCOUNT_NAME_CHECKPOINT''\<rparr>),
      (''MCE'', \<lparr>containers = [getenv w ''CONTAINER_MCE''],
                 account_name = getenv w ''AZURE_STORAGE_ACCOUNT_NAME_MCE''\<rparr>),
      (''CISCOIBR'', \<lparr>containers = [getenv w ''CONTAINER_CISCO_IBR''],
                      account_name = getenv w ''AZURE_STORAGE_ACCOUNT_NAME_CISCO_IBR''\<rparr>),
      (''BYOW'', \<lparr>containers = [getenv w ''CONTAINER_BYOW''],
                  account_name = getenv w ''AZURE_STORAGE_ACCOUNT_NAME_BYOW''\<rparr>)]"

text \<open>\<open>app_container_mapping[app_name]\<close>, which raises \<open>KeyError\<close> on an absent key.\<close>

definition mapping_lookup :: "world \<Rightarrow> string \<Rightarrow> exn + app_info" where
  "mapping_lookup w app_name =
     (case app_container_mapping w app_name of
        None \<Rightarrow> Inl (KeyError app_name)
      | Some info \<Rightarrow> Inr info)"

definition get_blob_service_client :: "world \<Rightarrow> string \<Rightarrow> exn + blob_service_client" where
  "get_blob_service_client w app_name =
     (case mapping_lookup w app_name of
        Inl e \<Rightarrow> Inl e
      | Inr info \<Rightarrow>
          Inr (BlobServiceClient
                 (''https://'' @ py_str (account_name info) @ ''.blob.core.windows.net'')))"

section \<open>Upload-tracking strategy (\<open>handle_atna_download\<close>)\<close>

text \<open>The response for the first blob whose name contains the upload identifier.\<close>

definition atna_link ::
  "world \<Rightarrow> blob_service_client \<Rightarrow> string option \<Rightarrow> string option \<Rightarrow> blob \<Rightarrow> state \<Rightarrow> outcome" where
  "atna_link w bsc account container b s =
     (case generate_sas_url w bsc account container (name b) default_expiry_minutes s of
        (Inl e, s1) \<Rightarrow> (Inl e, s1)
      | (Inr url, s1) \<Rightarrow>
          (Inr (JsonLink (''SAS link generated for '' @ name b) url, 200), s1))"

text \<open>The two nested loops: the containers in order, in each the blobs as the listing
  yields them; the handler returns at the first match. A listing that ends with an
  exception raises it once the blobs it yielded are used up.\<close>

fun atna_scan ::
  "world \<Rightarrow> blob_service_client \<Rightarrow> string option \<Rightarrow> string \<Rightarrow> string option list \<Rightarrow> state
     \<Rightarrow> outcome" where
  "atna_scan w bsc account upload_id [] s =
     (Inr (JsonError ''No file found matching upload_id'', 404), s)"
| "atna_scan w bsc account upload_id (container # rest) s =
     (case list_blobs w (account_url bsc) container of
        (blobs, failure) \<Rightarrow>
          (case find (\<lambda>b. py_in upload_id (name b)) blobs of
             Some b \<Rightarrow> atna_link w bsc account container b s
           | None \<Rightarrow>
               (case failure of
                  Some e \<Rightarrow> (Inl e, s)
                | None \<Rightarrow> atna_scan w bsc account upload_id rest s)))"

definition handle_atna_download ::
  "world \<Rightarrow> blob_service_client \<Rightarrow> string \<Rightarrow> string \<Rightarrow> state \<Rightarrow> outcome" where
  "handle_atna_download w bsc app_name cid s =
     (case find_one_latest (upload_docs w) cid of
        None \<Rightarrow> (Inr (JsonError ''No upload_id found for the given company_id'', 404), s)
      | Some latest_record \<Rightarrow>
          (case asset_add_uploads latest_record of
             None \<Rightarrow> (Inr (JsonError ''No upload_id found for the given company_id'', 404), s)
           | Some [] \<Rightarrow> (Inr (JsonError ''No upload_id found for the given company_id'', 404), s)
           | Some (entry # _) \<Rightarrow>
               (case entry ''upload_id'' of
                  None \<Rightarrow> (Inl (KeyError ''upload_id''), s)
                | Some upload_id \<Rightarrow>
                    (case mapping_lookup w app_name of
                       Inl e \<Rightarrow> (Inl e, s)
                     | Inr info \<Rightarrow>
                         atna_scan w bsc (account_name info) upload_id (containers info) s))))"

section \<open>Processed-workbook strategy (\<open>handle_f5_checkpoint_download\<close>)\<close>

text \<open>The loop over the containers for one filename. \<open>list(...)\<close> raises when the listing
  fails; \<open>name_starts_with\<close> keeps the blobs whose name starts with the filename; the
  \<open>break\<close> leaves the loop over the blobs of this container, and the loop over the
  containers goes on.\<close>

fun f5_scan_containers ::
  "world \<Rightarrow> blob_service_client \<Rightarrow> string option \<Rightarrow> string \<Rightarrow> string option list
     \<Rightarrow> matched_file list \<Rightarrow> state \<Rightarrow> (exn + matched_file list) \<times> state" where
  "f5_scan_containers w bsc account blob_name [] sas_links s = (Inr sas_links, s)"
| "f5_scan_containers w bsc account blob_name (container # rest) sas_links s =
     (case list_blobs w (account_url bsc) container of
        (blobs, Some e) \<Rightarrow> (Inl e, s)
      | (blobs, None) \<Rightarrow>
          (let blob_list = filter (\<lambda>b. prefix blob_name (name b)) blobs
           in case find (\<lambda>b. name b = blob_name) blob_list of
                None \<Rightarrow> f5_scan_containers w bsc account blob_name rest sas_links s
              | Some b \<Rightarrow>
                  (case generate_sas_url w bsc account container blob_name
                          default_expiry_minutes s of
                     (Inl e, s1) \<Rightarrow> (Inl e, s1)
                   | (Inr url, s1) \<Rightarrow>
                       f5_scan_containers w bsc account blob_name rest
                         (sas_links @ [\<lparr>mf_file = blob_name, download_url = url\<rparr>]) s1)))"

fun f5_scan_files ::
  "world \<Rightarrow> blob_service_client \<Rightarrow> string option \<Rightarrow> string option list \<Rightarrow> string list
     \<Rightarrow> matched_file list \<Rightarrow> state \<Rightarrow> (exn + matched_file list) \<times> state" where
  "f5_scan_files w bsc account container_names [] sas_links s = (Inr sas_links, s)"
| "f5_scan_files w bsc account container_names (blob_name # rest) sas_links s =
     (case f5_scan_containers w bsc account blob_name container_names sas_links s of
        (Inl e, s1) \<Rightarrow> (Inl e, s1)
      | (Inr sas_links1, s1) \<Rightarrow> f5_scan_files w bsc account container_names rest sas_links1 s1)"

text \<open>The fields read for each application, in the order of the source.\<close>

definition files_to_download :: "string \<Rightarrow> integration_record \<Rightarrow> string option list" where
  "files_to_download app_name record =
     (if app_name = ''F5'' then
        [workbooks record ''license_asset_summary_workbook_processed'',
         workbooks record ''pricing_retired_workbook_processed'',
         workbooks record ''pricing_active_workbook_processed'']
      else if app_name = ''CHECKPOINT'' then
        [workbooks record ''orders_workbook_processed'',
         workbooks record ''product_list_workbook_processed'']
      else [])"

text \<open>\<open>[f for f in files_to_download if f]\<close>: absent and empty names are dropped.\<close>

fun truthy_files :: "string option list \<Rightarrow> string list" where
  "truthy_files [] = []"
| "truthy_files (None # rest) = truthy_files rest"
| "truthy_files (Some f # rest) = (if f \<noteq> [] then f # truthy_files rest else truthy_files rest)"

definition handle_f5_checkpoint_download ::
  "world \<Rightarrow> blob_service_client \<Rightarrow> string \<Rightarrow> string \<Rightarrow> state \<Rightarrow> outcome" where
  "handle_f5_checkpoint_download w bsc app_name cid s =
     (case find_one (generic_docs w) cid of
        None \<Rightarrow> (Inr (JsonError (''No record found for company_id: '' @ cid), 404), s)
      | Some record \<Rightarrow>
          (let files = truthy_files (files_to_download app_name record)
           in if files = [] then
                (Inr (JsonError ''No workbook filenames found in MongoDB record'', 404), s)
              else
                (case mapping_lookup w app_name of
                   Inl e \<Rightarrow> (Inl e, s)
                 | Inr info \<Rightarrow>
                     (case f5_scan_files w bsc (account_name info) (containers info) files [] s of
                        (Inl e, s1) \<Rightarrow> (Inl e, s1)
                      | (Inr sas_links, s1) \<Rightarrow>
                          (if sas_links \<noteq> [] then
                             (Inr (JsonFiles ''SAS links generated'' sas_links, 200), s1)
                           else
                             (Inr (JsonError ''No matching blobs found in containers'', 404),
                              s1))))))"

section \<open>Content-match strategy (\<open>handle_paloalto_download\<close>)\<close>

text \<open>The body of the \<open>try\<close> for one blob: download, parse, look for the column, normalise
  it, test membership, issue the link. The result is the exception raised inside the
  \<open>try\<close>, or the entry to append, if any.\<close>

definition paloalto_try ::
  "world \<Rightarrow> blob_service_client \<Rightarrow> string option \<Rightarrow> string option \<Rightarrow> string \<Rightarrow> blob \<Rightarrow> state
     \<Rightarrow> (exn + matched_file option) \<times> state" where
  "paloalto_try w bsc account container csp_acct_name b s =
     (case download_blob w (account_url bsc) container (name b) of
        Inl e \<Rightarrow> (Inl e, s)
      | Inr blob_data \<Rightarrow>
          (case read_csv w blob_data of
             Inl e \<Rightarrow> (Inl e, s)
           | Inr df \<Rightarrow>
               (case map_of df ''CSP Acct Name'' of
                  None \<Rightarrow> (Inr None, s)
                | Some column \<Rightarrow>
                    (if Some csp_acct_name \<in> set (normalise_column w column)
                     then
                       (case generate_sas_url w bsc account container (name b)
                               default_expiry_minutes s of
                          (Inl e, s1) \<Rightarrow> (Inl e, s1)
                        | (Inr url, s1) \<Rightarrow>
                            (Inr (Some \<lparr>mf_file = name b, download_url = url\<rparr>), s1))
                     else (Inr None, s)))))"

text \<open>The loop over the blobs of one container, with the \<open>except Exception\<close> that logs a
  warning and goes on.\<close>

fun paloalto_scan_blobs ::
  "world \<Rightarrow> blob_service_client \<Rightarrow> string option \<Rightarrow> string option \<Rightarrow> string \<Rightarrow> blob list
     \<Rightarrow> matched_file list \<Rightarrow> state \<Rightarrow> matched_file list \<times> state" where
  "paloalto_scan_blobs w bsc account container csp_acct_name [] matching_files s =
     (matching_files, s)"
| "paloalto_scan_blobs w bsc account container csp_acct_name (b # rest) matching_files s =
     (case paloalto_try w bsc account container csp_acct_name b s of
        (Inl e, s1) \<Rightarrow>
          paloalto_scan_blobs w bsc account container csp_acct_name rest matching_files
            (s1\<lparr>trace := trace s1 @
               [LogWarning (''Failed to process blob '' @ name b @ '': '' @ exn_str e)]\<rparr>)
      | (Inr None, s1) \<Rightarrow>
          paloalto_scan_blobs w bsc account container csp_acct_name rest matching_files s1
      | (Inr (Some m), s1) \<Rightarrow>
          paloalto_scan_blobs w bsc account container csp_acct_name rest
            (matching_files @ [m]) s1)"

fun paloalto_scan_containers ::
  "world \<Rightarrow> blob_service_client \<Rightarrow> string option \<Rightarrow> string \<Rightarrow> string option list
     \<Rightarrow> matched_file list \<Rightarrow> state \<Rightarrow> (exn + matched_file list) \<times> state" where
  "paloalto_scan_containers w bsc account csp_acct_name [] matching_files s =
     (Inr matching_files, s)"
| "paloalto_scan_containers w bsc account csp_acct_name (container # rest) matching_files s =
     (case list_blobs w (account_url bsc) container of
        (blobs, failure) \<Rightarrow>
          (case paloalto_scan_blobs w bsc account container csp_acct_name blobs
                  matching_files s of
             (matching_files1, s1) \<Rightarrow>
               (case failure of
                  Some e \<Rightarrow> (Inl e, s1)
                | None \<Rightarrow>
                    paloalto_scan_containers w bsc account csp_acct_name rest
                      matching_files1 s1)))"

definition handle_paloalto_download ::
  "world \<Rightarrow> blob_service_client \<Rightarrow> string \<Rightarrow> string \<Rightarrow> state \<Rightarrow> outcome" where
  "handle_paloalto_download w bsc app_name cid s =
     (case find_one (generic_docs w) cid of
        None \<Rightarrow> (Inr (JsonError (''No record found for company_id: '' @ cid), 404), s)
      | Some record \<Rightarrow>
          (case connection_details record of
             [] \<Rightarrow> (Inr (JsonError ''No csp_acct_name found'', 404), s)
           | detail # _ \<Rightarrow>
               (case detail ''csp_acct_name'' of
                  None \<Rightarrow> (Inr (JsonError ''No csp_acct_name found'', 404), s)
                | Some raw_name \<Rightarrow>
                    (if raw_name = [] then
                       (Inr (JsonError ''No csp_acct_name found'', 404), s)
                     else
                       (let csp_acct_name = normalise w raw_name
                        in case mapping_lookup w app_name of
                             Inl e \<Rightarrow> (Inl e, s)
                           | Inr info \<Rightarrow>
                               (case paloalto_scan_containers w bsc (account_name info)
                                       csp_acct_name (containers info) [] s of
                                  (Inl e, s1) \<Rightarrow> (Inl e, s1)
                                | (Inr matching_files, s1) \<Rightarrow>
                                    (if matching_files \<noteq> [] then
                                       (Inr (JsonFiles ''SAS links generated'' matching_files, 200),
                                        s1)
                                     else
                                       (Inr (JsonMessage ''No matching data found'', 200),
                                        s1))))))))"

section \<open>Recency strategy (\<open>handle_latest_blob_download\<close>)\<close>

text \<open>The loop over the containers. \<open>latest\<close> holds \<open>latest_container\<close> and \<open>latest_blob\<close>,
  which the source sets together (both \<open>None\<close> at the start). A blob object is truthy, so
  \<open>not latest_blob\<close> holds exactly when none has been kept yet.\<close>

fun latest_scan ::
  "world \<Rightarrow> blob_service_client \<Rightarrow> string \<Rightarrow> string option list
     \<Rightarrow> (string option \<times> blob) option \<Rightarrow> exn + (string option \<times> blob) option" where
  "latest_scan w bsc cid [] latest = Inr latest"
| "latest_scan w bsc cid (container # rest) latest =
     (case list_blobs w (account_url bsc) container of
        (blobs, Some e) \<Rightarrow> Inl e
      | (blobs, None) \<Rightarrow>
          (case filter (\<lambda>b. py_in cid (name b)) blobs of
             [] \<Rightarrow> latest_scan w bsc cid rest latest
           | m # ms \<Rightarrow>
               (let most_recent = py_max last_modified m ms
                in case latest of
                     None \<Rightarrow> latest_scan w bsc cid rest (Some (container, most_recent))
                   | Some (latest_container, latest_blob) \<Rightarrow>
                       (if last_modified latest_blob < last_modified most_recent
                        then latest_scan w bsc cid rest (Some (container, most_recent))
                        else latest_scan w bsc cid rest latest))))"

definition handle_latest_blob_download ::
  "world \<Rightarrow> blob_service_client \<Rightarrow> string \<Rightarrow> string \<Rightarrow> state \<Rightarrow> outcome" where
  "handle_latest_blob_download w bsc app_name cid s =
     (case mapping_lookup w app_name of
        Inl e \<Rightarrow> (Inl e, s)
      | Inr info \<Rightarrow>
          (case latest_scan w bsc cid (containers info) None of
             Inl e \<Rightarrow> (Inl e, s)
           | Inr None \<Rightarrow> (Inr (JsonMessage ''No files found for company_id'', 200), s)
           | Inr (Some (latest_container, latest_blob)) \<Rightarrow>
               (case generate_sas_url w bsc (account_name info) latest_container
                       (name latest_blob) default_expiry_minutes s of
                  (Inr url, s1) \<Rightarrow>
                    (Inr (JsonLink (''Download link for '' @ name latest_blob @ '' generated'') url,
                          200), s1)
                | (Inl e, s1) \<Rightarrow>
                    (Inr (JsonError ''Failed to generate download link'', 500),
                     s1\<lparr>trace := trace s1 @
                        [LogError (''Failed to generate SAS URL: '' @ exn_str e)]\<rparr>))))"

section \<open>The dispatcher (\<open>download_latest_files\<close>)\<close>

definition download_latest_files :: "world \<Rightarrow> request \<Rightarrow> state \<Rightarrow> outcome" where
  "download_latest_files w req s =
     (case (application_name req, company_id req) of
        (Some app_name, Some cid) \<Rightarrow>
          (if app_name = [] \<or> cid = [] then
             (Inr (JsonError ''Missing application_name or company_id'', 400), s)
           else if app_name \<notin> dom (app_container_mapping w) then
             (Inr (JsonError ''Invalid application name'', 400), s)
           else
             (case get_blob_service_client w app_name of
                Inl e \<Rightarrow> (Inl e, s)
              | Inr bsc \<Rightarrow>
                  (if app_name = ''ATnA'' then handle_atna_download w bsc app_name cid s
                   else if app_name \<in> set [''F5'', ''CHECKPOINT''] then
                     handle_f5_checkpoint_download w bsc app_name cid s
                   else if app_name = ''PALOALTO'' then
                     handle_paloalto_download w bsc app_name cid s
                   else handle_latest_blob_download w bsc app_name cid s)))
      | _ \<Rightarrow> (Inr (JsonError ''Missing application_name or company_id'', 400), s))"

section \<open>Notions used in the statements\<close>

text \<open>The number of credential requests recorded so far.\<close>

fun is_key_request :: "event \<Rightarrow> bool" where
  "is_key_request (KeyRequest url start expiry_time) = True"
| "is_key_request ev = False"

definition key_requests :: "state \<Rightarrow> nat" where
  "key_requests s = length (filter is_key_request (trace s))"

text \<open>The blobs of a container whose name contains \<open>sub\<close>, in listing order, and the
  candidates of a scan over several containers: the containers in configured order, in
  each its matching blobs in listing order.\<close>

definition matching_blobs ::
  "world \<Rightarrow> blob_service_client \<Rightarrow> string \<Rightarrow> string option \<Rightarrow> blob list" where
  "matching_blobs w bsc sub c =
     filter (\<lambda>b. py_in sub (name b)) (fst (list_blobs w (account_url bsc) c))"

definition candidates ::
  "world \<Rightarrow> blob_service_client \<Rightarrow> string \<Rightarrow> string option list \<Rightarrow> (string option \<times> blob) list" where
  "candidates w bsc sub cs = concat (map (\<lambda>c. map (Pair c) (matching_blobs w bsc sub c)) cs)"

text \<open>What downloading and parsing a blob gives for the account-name column: an exception,
  no such column, or the column; and whether the normalised column contains the target.\<close>

definition csp_column ::
  "world \<Rightarrow> blob_service_client \<Rightarrow> string option \<Rightarrow> blob \<Rightarrow> exn + string option list option" where
  "csp_column w bsc c b =
     (case download_blob w (account_url bsc) c (name b) of
        Inl e \<Rightarrow> Inl e
      | Inr blob_data \<Rightarrow>
          (case read_csv w blob_data of
             Inl e \<Rightarrow> Inl e
           | Inr df \<Rightarrow> Inr (map_of df ''CSP Acct Name'')))"

definition csp_match ::
  "world \<Rightarrow> blob_service_client \<Rightarrow> string \<Rightarrow> string option \<Rightarrow> blob \<Rightarrow> bool" where
  "csp_match w bsc target c b =
     (case csp_column w bsc c b of
        Inr (Some column) \<Rightarrow> Some target \<in> set (normalise_column w column)
      | _ \<Rightarrow> False)"


text \<open>A matched file that names \<open>f\<close> and carries a link issued for \<open>f\<close> in container \<open>c\<close>.\<close>

definition linked_to ::
  "world \<Rightarrow> blob_service_client \<Rightarrow> string option \<Rightarrow> matched_file \<Rightarrow> string \<Rightarrow> string option
     \<Rightarrow> bool" where
  "linked_to w bsc account m f c \<longleftrightarrow>
     mf_file m = f
     \<and> (\<exists>s1 s2. generate_sas_url w bsc account c f default_expiry_minutes s1
                   = (Inr (download_url m), s2))"

text \<open>The warning logged for a blob whose processing raised \<open>e\<close>.\<close>

definition blob_warning :: "blob \<Rightarrow> exn \<Rightarrow> event" where
  "blob_warning b e = LogWarning (''Failed to process blob '' @ name b @ '': '' @ exn_str e)"

text \<open>A world in which neither the credential call nor the signing call ever raises.\<close>

definition issuance_succeeds :: "world \<Rightarrow> bool" where
  "issuance_succeeds w \<longleftrightarrow>
     (\<forall>url start_time expiry_time. \<exists>k. get_user_delegation_key w url start_time expiry_time = Inr k)
     \<and> (\<forall>args. \<exists>token. generate_blob_sas w args = Inr token)"

section \<open>Example worlds\<close>

text \<open>A small deployment used to run the handlers on concrete requests.\<close>

text \<open>\<open>str.strip()\<close> and \<open>str.lower()\<close> as they act on ASCII text, for the example worlds:
  the whitespace characters are tab, line feed, vertical tab, form feed, carriage return,
  the four separators 0x1c..0x1f and the space.\<close>

definition is_space :: "char \<Rightarrow> bool" where
  "is_space c =
     (c \<in> set [CHR 0x09, CHR 0x0A, CHR 0x0B, CHR 0x0C, CHR 0x0D,
                CHR 0x1C, CHR 0x1D, CHR 0x1E, CHR 0x1F, CHR 0x20])"

definition ascii_strip :: "string \<Rightarrow> string" where
  "ascii_strip s = rev (dropWhile is_space (rev (dropWhile is_space s)))"

definition lower_char :: "char \<Rightarrow> char" where
  "lower_char c =
     (case map_of (zip ''ABCDEFGHIJKLMNOPQRSTUVWXYZ'' ''abcdefghijklmnopqrstuvwxyz'') c of
        Some l \<Rightarrow> l
      | None \<Rightarrow> c)"

definition ascii_lower :: "string \<Rightarrow> string" where
  "ascii_lower s = map lower_char s"

definition demo_env :: "string \<Rightarrow> string option" where
  "demo_env v =
     (if v = ''CONTAINER_ATnA'' then Some ''atna''
      else if v = ''CONTAINER_PALOALTO_1'' then Some ''palo1''
      else if v = ''CONTAINER_PALOALTO_2'' then Some ''palo2''
      else if v = ''CONTAINER_F5'' then Some ''f5''
      else if v = ''CONTAINER_CHECKPOINT'' then Some ''checkpoint''
      else if v = ''CONTAINER_BYOW'' then Some ''byow''
      else if v = ''CONTAINER_MCE'' then Some ''mce''
      else if prefix ''AZURE_STORAGE_ACCOUNT_NAME_'' v then Some ''acct''
      else None)"

definition demo_uploads :: "upload_record list" where
  "demo_uploads =
     [\<lparr>ur_company_id = ''c1'', created_on = 5,
        asset_add_uploads = Some [[''upload_id'' \<mapsto> ''u1'']]\<rparr>,
      \<lparr>ur_company_id = ''c1'', created_on = 9,
        asset_add_uploads = Some [[''upload_id'' \<mapsto> ''u2''], [''upload_id'' \<mapsto> ''u3'']]\<rparr>,
      \<lparr>ur_company_id = ''c2'', created_on = 7,
        asset_add_uploads = Some [[''uploaded_by'' \<mapsto> ''ann'']]\<rparr>,
      \<lparr>ur_company_id = ''c3'', created_on = 8, asset_add_uploads = Some []\<rparr>,
      \<lparr>ur_company_id = ''c5'', created_on = 3,
        asset_add_uploads = Some [[''upload_id'' \<mapsto> ''u9'']]\<rparr>]"

definition demo_records :: "integration_record list" where
  "demo_records =
     [\<lparr>ir_company_id = ''c1'',
        workbooks = [''license_asset_summary_workbook_processed'' \<mapsto> ''c1_lic.csv'',
                     ''pricing_retired_workbook_processed'' \<mapsto> [],
                     ''pricing_active_workbook_processed'' \<mapsto> ''c1_active.csv'',
                     ''orders_workbook_processed'' \<mapsto> ''c1_orders.csv''],
        connection_details = [[''csp_acct_name'' \<mapsto> '' Acme '']]\<rparr>,
      \<lparr>ir_company_id = ''c4'',
        workbooks = [''license_asset_summary_workbook_processed'' \<mapsto> ''c4_lic.csv''],
        connection_details = [[''csp_acct_name'' \<mapsto> ''nobody'']]\<rparr>,
      \<lparr>ir_company_id = ''c6'',
        workbooks = [''license_asset_summary_workbook_processed'' \<mapsto> ''dup.csv'',
                     ''pricing_retired_workbook_processed'' \<mapsto> ''dup.csv''],
        connection_details = []\<rparr>]"

definition demo_blobs :: "string \<Rightarrow> string option \<Rightarrow> blob list \<times> exn option" where
  "demo_blobs url c =
     (if c = Some ''atna'' then
        ([\<lparr>name = ''x_u1.csv'', last_modified = 1\<rparr>, \<lparr>name = ''x_u2.csv'', last_modified = 2\<rparr>,
          \<lparr>name = ''y_u2.csv'', last_modified = 3\<rparr>], None)
      else if c = Some ''f5'' then
        ([\<lparr>name = ''c1_lic.csv'', last_modified = 1\<rparr>,
          \<lparr>name = ''c1_lic.csv.bak'', last_modified = 2\<rparr>,
          \<lparr>name = ''dup.csv'', last_modified = 3\<rparr>], None)
      else if c = Some ''checkpoint'' then
        ([\<lparr>name = ''c1_orders.csv'', last_modified = 1\<rparr>,
          \<lparr>name = ''c1_lic.csv'', last_modified = 2\<rparr>], None)
      else if c = Some ''palo1'' then
        ([\<lparr>name = ''broken.csv'', last_modified = 1\<rparr>, \<lparr>name = ''other.csv'', last_modified = 2\<rparr>,
          \<lparr>name = ''east.csv'', last_modified = 3\<rparr>], None)
      else if c = Some ''palo2'' then ([\<lparr>name = ''west.csv'', last_modified = 4\<rparr>], None)
      else if c = Some ''byow'' then
        ([\<lparr>name = ''c1_jan'', last_modified = 1\<rparr>, \<lparr>name = ''c1_mar'', last_modified = 7\<rparr>,
          \<lparr>name = ''c9_apr'', last_modified = 9\<rparr>], None)
      else if c = Some ''mce'' then ([\<lparr>name = ''c1_feb'', last_modified = 7\<rparr>], None)
      else ([], None))"

definition demo_download :: "string \<Rightarrow> string option \<Rightarrow> string \<Rightarrow> exn + string" where
  "demo_download url c n =
     (if n = ''broken.csv'' then Inl (ExternalError ''timeout'') else Inr n)"

definition demo_read_csv :: "string \<Rightarrow> exn + dataframe" where
  "demo_read_csv blob_data =
     (if blob_data = ''east.csv'' then Inr [(''CSP Acct Name'', [None, Some ''ACME  ''])]
      else if blob_data = ''west.csv'' then Inr [(''Region'', [Some ''w'']), (''CSP Acct Name'', [Some ''acme''])]
      else if blob_data = ''other.csv'' then Inr [(''Account'', [Some ''acme''])]
      else Inl (ExternalError ''no columns''))"

definition demo_world :: world where
  "demo_world =
     \<lparr>getenv = demo_env, upload_docs = demo_uploads, generic_docs = demo_records,
      list_blobs = demo_blobs, download_blob = demo_download, read_csv = demo_read_csv,
      str_strip = ascii_strip, str_lower = ascii_lower, missing_as_nan = True,
      utcnow = (\<lambda>k. 1000000 * int k),
      get_user_delegation_key = (\<lambda>url start expiry_time. Inr ''key''),
      generate_blob_sas = (\<lambda>args. Inr ''sig'')\<rparr>"

text \<open>The same world with the credential call refused.\<close>

definition denied_world :: world where
  "denied_world =
     demo_world\<lparr>get_user_delegation_key :=
       (\<lambda>url start expiry_time. Inl (ExternalError ''AuthorizationFailure''))\<rparr>"



definition start :: state where
  "start = \<lparr>ticks = 0, trace = []\<rparr>"

section \<open>Properties of the primitives\<close>


lemma py_in_sublist: "py_in sub s \<longleftrightarrow> sublist sub s"
  by (induction s) (auto simp: sublist_Cons_right)

lemma py_max_unfold:
  "py_max key m (x # xs) =
     (if key m < key (py_max key x xs) then py_max key x xs else m)"
proof (induction xs arbitrary: m x)
  case Nil
  show ?case by simp
next
  case (Cons y ys)
  have a: "py_max key m (x # y # ys) = py_max key (if key m < key x then x else m) (y # ys)"
    by simp
  show ?case
    unfolding a
    by (subst Cons.IH, subst (1 2) Cons.IH) auto
qed

lemma py_max_mem: "py_max key m xs \<in> set (m # xs)"
  by (induction xs arbitrary: m) auto

lemma py_max_ge: "x \<in> set (m # xs) \<Longrightarrow> key x \<le> key (py_max key m xs)"
proof (induction xs arbitrary: m x)
  case Nil
  then show ?case by simp
next
  case (Cons y ys)
  let ?m = "if key m < key y then y else m"
  have top: "key ?m \<le> key (py_max key ?m ys)"
    by (rule Cons.IH) simp
  have "x = m \<or> x = y \<or> x \<in> set ys" using Cons.prems by auto
  then show ?case
  proof (elim disjE)
    assume "x \<in> set ys"
    then have "key x \<le> key (py_max key ?m ys)" by (intro Cons.IH) simp
    then show ?thesis by simp
  qed (use top in \<open>auto split: if_splits\<close>)
qed

lemma find_one_latest_None:
  "find_one_latest docs c = None \<longleftrightarrow> (\<forall>d\<in>set docs. ur_company_id d \<noteq> c)"
proof -
  have "sort_key (\<lambda>d. - created_on d) (filter (\<lambda>d. ur_company_id d = c) docs) = []
        \<longleftrightarrow> filter (\<lambda>d. ur_company_id d = c) docs = []"
    by (metis length_sort length_0_conv)
  then show ?thesis
    by (auto simp: find_one_latest_def filter_empty_conv split: list.splits)
qed

lemma find_one_latest_Some:
  assumes "find_one_latest docs c = Some r"
  shows "r \<in> set docs \<and> ur_company_id r = c
         \<and> (\<forall>d\<in>set docs. ur_company_id d = c \<longrightarrow> created_on d \<le> created_on r)"
proof -
  let ?fs = "filter (\<lambda>d. ur_company_id d = c) docs"
  let ?ss = "sort_key (\<lambda>d. - created_on d) ?fs"
  from assms obtain rest where ss: "?ss = r # rest"
    by (auto simp: find_one_latest_def split: list.splits)
  have "set ?ss = set ?fs" by simp
  with ss have mem: "r \<in> set ?fs" by (metis list.set_intros(1))
  have "sorted (map (\<lambda>d. - created_on d) ?ss)" by (rule sorted_sort_key)
  with ss have le: "\<forall>d\<in>set rest. - created_on r \<le> - created_on d" by simp
  have "\<forall>d\<in>set ?fs. created_on d \<le> created_on r"
  proof
    fix d assume "d \<in> set ?fs"
    then have "d \<in> set ?ss" by simp
    with ss have "d = r \<or> d \<in> set rest" by simp
    with le show "created_on d \<le> created_on r" by auto
  qed
  with mem show ?thesis by auto
qed

lemma dom_app_container_mapping:
  "dom (app_container_mapping w) =
     {''ATnA'', ''PALOALTO'', ''EAROI'', ''F5'', ''CHECKPOINT'', ''MCE'', ''CISCOIBR'', ''BYOW''}"
  unfolding app_container_mapping_def dom_map_of_conv_image_fst by simp

lemma generate_sas_url_state:
  assumes "generate_sas_url w bsc account container blob_name ttl s = (r, s')"
  shows "ticks s' = ticks s + 2 \<and> key_requests s' = key_requests s + 1
         \<and> (\<exists>evs. trace s' = trace s @ evs)"
  using assms
  by (auto simp: generate_sas_url_def Let_def key_requests_def split: sum.splits)

lemma find_first:
  "xs = pre @ x # post \<Longrightarrow> \<forall>y\<in>set pre. \<not> P y \<Longrightarrow> P x \<Longrightarrow> find P xs = Some x"
  by (induction pre arbitrary: xs) auto

lemma find_filter_None: "find P xs = None \<longleftrightarrow> filter P xs = []"
  by (induction xs) auto

section \<open>The dispatcher\<close>

text \<open>
  C1 (as stated, refuted): with an application identifier that is not a key of the
  table and an empty \<open>company_id\<close>, the view answers
  \<open>Missing application_name or company_id\<close> (the specification's InvalidRequest), not
  \<open>Invalid application name\<close> (UnknownApplication): the emptiness guard comes first.
\<close>

theorem unknown_application_empty_client_counterexample:
  "''XYZ'' \<notin> dom (app_container_mapping demo_world)
   \<and> fst (download_latest_files demo_world
            \<lparr>application_name = Some ''XYZ'', company_id = Some ''''\<rparr> start)
       = Inr (JsonError ''Missing application_name or company_id'', 400)
   \<and> fst (download_latest_files demo_world
            \<lparr>application_name = Some ''XYZ'', company_id = Some ''''\<rparr> start)
       \<noteq> Inr (JsonError ''Invalid application name'', 400)"
  by (simp add: dom_app_container_mapping download_latest_files_def)

text \<open>
  C1 (amended): for an application identifier that is not a key of the table, the view
  answers \<open>Invalid application name\<close> with status 400 whenever both the identifier and
  \<open>company_id\<close> are non-empty, whatever \<open>company_id\<close> is; when either is empty it answers
  \<open>Missing application_name or company_id\<close> with status 400. The state is unchanged: no
  strategy runs.
\<close>

theorem unknown_application:
  assumes "app_name \<notin> dom (app_container_mapping w)"
  shows "download_latest_files w \<lparr>application_name = Some app_name, company_id = Some cid\<rparr> s =
           (if app_name = [] \<or> cid = []
            then (Inr (JsonError ''Missing application_name or company_id'', 400), s)
            else (Inr (JsonError ''Invalid application name'', 400), s))"
  using assms by (simp add: download_latest_files_def)

theorem unknown_application_witness:
  "download_latest_files demo_world \<lparr>application_name = Some ''SPLUNK'', company_id = Some ''c1''\<rparr> start =
     (Inr (JsonError ''Invalid application name'', 400), start)"
proof -
  have "''SPLUNK'' \<notin> dom (app_container_mapping demo_world)"
    by (simp add: dom_app_container_mapping)
  from unknown_application [OF this, of "''c1''" start] show ?thesis by simp
qed

section \<open>The link issuer\<close>

text \<open>
  C8: every link that \<open>generate_sas_url\<close> returns carries the token of one signing request,
  whose expiry is the clock reading at the start of the issuance plus the time to live
  (so no later than issue time plus ttl; 15 minutes at every call site, since each passes
  \<open>default_expiry_minutes\<close>), whose permission is read and nothing else, and whose container
  and blob name are exactly the pair the link was asked for; the path of the URL names the
  same pair, and the delegation key was asked for a window ending at that expiry. A link
  issued for another pair therefore carries another signing request. What the storage
  service does with the token is outside the program.
\<close>

theorem issued_link:
  assumes "generate_sas_url w bsc account container blob_name ttl s = (Inr url, s')"
  shows "\<exists>args token.
           generate_blob_sas w args = Inr token
         \<and> url = ''https://'' @ py_str account @ ''.blob.core.windows.net/''
                   @ py_str container @ ''/'' @ blob_name @ ''?'' @ token
         \<and> expiry args = utcnow w (ticks s) + timedelta_minutes ttl
         \<and> timedelta_minutes default_expiry_minutes = 15 * 60 * 1000000
         \<and> permission args = BlobSasPermissions_read
         \<and> perm_read (permission args) \<and> \<not> perm_add (permission args)
         \<and> \<not> perm_create (permission args) \<and> \<not> perm_write (permission args)
         \<and> \<not> perm_delete (permission args) \<and> \<not> perm_list (permission args)
         \<and> sas_container_name args = container \<and> sas_blob_name args = blob_name
         \<and> get_user_delegation_key w (account_url bsc) (utcnow w (Suc (ticks s))) (expiry args)
             = Inr (user_delegation_key args)
         \<and> trace s' = trace s @ [KeyRequest (account_url bsc) (utcnow w (Suc (ticks s))) (expiry args),
                                 SignRequest args]"
  using assms
  by (auto simp: generate_sas_url_def Let_def BlobSasPermissions_read_def
        default_expiry_minutes_def timedelta_minutes_def split: sum.splits)

theorem issued_link_witness:
  "\<exists>args token.
       generate_blob_sas demo_world args = Inr token
     \<and> ''https://acct.blob.core.windows.net/f5/c1_lic.csv?sig''
          = ''https://'' @ py_str (Some ''acct'') @ ''.blob.core.windows.net/''
              @ py_str (Some ''f5'') @ ''/'' @ ''c1_lic.csv'' @ ''?'' @ token
     \<and> expiry args = 900000000
     \<and> permission args = BlobSasPermissions_read
     \<and> sas_container_name args = Some ''f5'' \<and> sas_blob_name args = ''c1_lic.csv''"
proof -
  have run: "generate_sas_url demo_world (BlobServiceClient ''https://acct.blob.core.windows.net'')
               (Some ''acct'') (Some ''f5'') ''c1_lic.csv'' default_expiry_minutes start =
             (Inr ''https://acct.blob.core.windows.net/f5/c1_lic.csv?sig'',
              \<lparr>ticks = 2,
               trace = [KeyRequest ''https://acct.blob.core.windows.net'' 1000000 900000000,
                        SignRequest \<lparr>sas_account_name = Some ''acct'', sas_container_name = Some ''f5'',
                          sas_blob_name = ''c1_lic.csv'', user_delegation_key = ''key'',
                          permission = BlobSasPermissions_read, expiry = 900000000\<rparr>]\<rparr>)"
    by (simp add: generate_sas_url_def demo_world_def start_def default_expiry_minutes_def
          timedelta_minutes_def Let_def)
  from issued_link [OF run] obtain args token where
    "generate_blob_sas demo_world args = Inr token"
    "''https://acct.blob.core.windows.net/f5/c1_lic.csv?sig''
       = ''https://'' @ py_str (Some ''acct'') @ ''.blob.core.windows.net/''
           @ py_str (Some ''f5'') @ ''/'' @ ''c1_lic.csv'' @ ''?'' @ token"
    "expiry args = utcnow demo_world (ticks start) + timedelta_minutes default_expiry_minutes"
    "permission args = BlobSasPermissions_read"
    "sas_container_name args = Some ''f5''" "sas_blob_name args = ''c1_lic.csv''"
    by blast
  moreover have "utcnow demo_world (ticks start) + timedelta_minutes default_expiry_minutes
                   = 900000000"
    by (simp add: demo_world_def start_def default_expiry_minutes_def timedelta_minutes_def)
  ultimately show ?thesis by metis
qed

section \<open>Upload-tracking strategy\<close>

text \<open>
  C10: the guard before the entry selection tests that the latest record exists and that
  its list \<open>asset_add_uploads\<close> is present and non-empty, nothing more. When the first entry
  of that list has no key \<open>upload_id\<close>, the handler, and with it the view, lets a
  \<open>KeyError\<close> escape instead of answering \<open>No upload_id found for the given company_id\<close>.
\<close>

theorem missing_upload_id_raises:
  assumes "find_one_latest (upload_docs w) cid = Some latest_record"
    and "asset_add_uploads latest_record = Some (entry # entries)"
    and "entry ''upload_id'' = None"
    and "cid \<noteq> []"
  shows "handle_atna_download w bsc app_name cid s = (Inl (KeyError ''upload_id''), s)
       \<and> download_latest_files w \<lparr>application_name = Some ''ATnA'', company_id = Some cid\<rparr> s
           = (Inl (KeyError ''upload_id''), s)"
  using assms
  by (simp add: handle_atna_download_def download_latest_files_def dom_app_container_mapping
        get_blob_service_client_def mapping_lookup_def app_container_mapping_def)

theorem missing_upload_id_raises_witness:
  "download_latest_files demo_world \<lparr>application_name = Some ''ATnA'', company_id = Some ''c2''\<rparr> start
     = (Inl (KeyError ''upload_id''), start)"
proof -
  let ?r = "\<lparr>ur_company_id = ''c2'', created_on = 7,
             asset_add_uploads = Some [[''uploaded_by'' \<mapsto> ''ann'']]\<rparr>"
  have a: "find_one_latest (upload_docs demo_world) ''c2'' = Some ?r"
    by (simp add: find_one_latest_def demo_world_def demo_uploads_def)
  have b: "asset_add_uploads ?r = Some ([''uploaded_by'' \<mapsto> ''ann''] # [])" by simp
  have c: "[''uploaded_by'' \<mapsto> ''ann''] ''upload_id'' = None" by simp
  have d: "''c2'' \<noteq> []" by simp
  from missing_upload_id_raises [OF a b c d] show ?thesis by simp
qed

text \<open>
  C5: when no upload record of the client exists, the handler answers
  \<open>No upload_id found for the given company_id\<close> with status 404. Otherwise its outcome is
  fixed by one record of the client whose creation time is the greatest among the client's
  records: the same 404 when that record's entry list is absent or empty, and otherwise the
  scan of the containers for the \<open>upload_id\<close> of the first entry of that list.
\<close>

theorem latest_upload_record:
  "(if \<forall>d\<in>set (upload_docs w). ur_company_id d \<noteq> cid
    then handle_atna_download w bsc app_name cid s
           = (Inr (JsonError ''No upload_id found for the given company_id'', 404), s)
    else \<exists>r. r \<in> set (upload_docs w) \<and> ur_company_id r = cid
           \<and> (\<forall>d\<in>set (upload_docs w). ur_company_id d = cid \<longrightarrow> created_on d \<le> created_on r)
           \<and> handle_atna_download w bsc app_name cid s =
               (case asset_add_uploads r of
                  None \<Rightarrow> (Inr (JsonError ''No upload_id found for the given company_id'', 404), s)
                | Some [] \<Rightarrow> (Inr (JsonError ''No upload_id found for the given company_id'', 404), s)
                | Some (entry # entries) \<Rightarrow>
                    (case entry ''upload_id'' of
                       None \<Rightarrow> (Inl (KeyError ''upload_id''), s)
                     | Some upload_id \<Rightarrow>
                         (case mapping_lookup w app_name of
                            Inl e \<Rightarrow> (Inl e, s)
                          | Inr info \<Rightarrow>
                              atna_scan w bsc (account_name info) upload_id (containers info) s))))"
proof (cases "find_one_latest (upload_docs w) cid")
  case None
  then have "\<forall>d\<in>set (upload_docs w). ur_company_id d \<noteq> cid"
    by (simp add: find_one_latest_None)
  then show ?thesis
    by (simp add: handle_atna_download_def None)
next
  case (Some r)
  from find_one_latest_Some [OF Some]
  have r: "r \<in> set (upload_docs w)" "ur_company_id r = cid"
    "\<forall>d\<in>set (upload_docs w). ur_company_id d = cid \<longrightarrow> created_on d \<le> created_on r"
    by auto
  have run: "handle_atna_download w bsc app_name cid s =
               (case asset_add_uploads r of
                  None \<Rightarrow> (Inr (JsonError ''No upload_id found for the given company_id'', 404), s)
                | Some [] \<Rightarrow> (Inr (JsonError ''No upload_id found for the given company_id'', 404), s)
                | Some (entry # entries) \<Rightarrow>
                    (case entry ''upload_id'' of
                       None \<Rightarrow> (Inl (KeyError ''upload_id''), s)
                     | Some upload_id \<Rightarrow>
                         (case mapping_lookup w app_name of
                            Inl e \<Rightarrow> (Inl e, s)
                          | Inr info \<Rightarrow>
                              atna_scan w bsc (account_name info) upload_id (containers info) s)))"
    by (simp add: handle_atna_download_def Some)
  have ex: "\<not> (\<forall>d\<in>set (upload_docs w). ur_company_id d \<noteq> cid)" using r by blast
  show ?thesis
    unfolding if_not_P [OF ex]
    using r run by blast
qed


theorem latest_upload_record_witness:
  "fst (handle_atna_download demo_world (BlobServiceClient ''https://acct.blob.core.windows.net'')
          ''ATnA'' ''c1'' start)
     = Inr (JsonLink ''SAS link generated for x_u2.csv''
              ''https://acct.blob.core.windows.net/atna/x_u2.csv?sig'', 200)"
proof -
  let ?bsc = "BlobServiceClient ''https://acct.blob.core.windows.net''"
  let ?r2 = "\<lparr>ur_company_id = ''c1'', created_on = 9,
              asset_add_uploads = Some [[''upload_id'' \<mapsto> ''u2''], [''upload_id'' \<mapsto> ''u3'']]\<rparr>"
  have ex: "\<not> (\<forall>d\<in>set (upload_docs demo_world). ur_company_id d \<noteq> ''c1'')"
    by (simp add: demo_world_def demo_uploads_def)
  from latest_upload_record [of demo_world "''c1''" ?bsc "''ATnA''" start]
  obtain r where r: "r \<in> set (upload_docs demo_world)" "ur_company_id r = ''c1''"
    "\<forall>d\<in>set (upload_docs demo_world). ur_company_id d = ''c1'' \<longrightarrow> created_on d \<le> created_on r"
    and run: "handle_atna_download demo_world ?bsc ''ATnA'' ''c1'' start =
               (case asset_add_uploads r of
                  None \<Rightarrow> (Inr (JsonError ''No upload_id found for the given company_id'', 404), start)
                | Some [] \<Rightarrow> (Inr (JsonError ''No upload_id found for the given company_id'', 404), start)
                | Some (entry # entries) \<Rightarrow>
                    (case entry ''upload_id'' of
                       None \<Rightarrow> (Inl (KeyError ''upload_id''), start)
                     | Some upload_id \<Rightarrow>
                         (case mapping_lookup demo_world ''ATnA'' of
                            Inl e \<Rightarrow> (Inl e, start)
                          | Inr info \<Rightarrow>
                              atna_scan demo_world ?bsc (account_name info) upload_id
                                (containers info) start)))"
    unfolding if_not_P [OF ex] by blast
  have "?r2 \<in> set (upload_docs demo_world)" "ur_company_id ?r2 = ''c1''"
    by (simp_all add: demo_world_def demo_uploads_def)
  with r(3) have "created_on ?r2 \<le> created_on r" by blast
  with r(1,2) have "r = ?r2"
    by (auto simp: demo_world_def demo_uploads_def)
  with run show ?thesis
    by (simp add: mapping_lookup_def app_container_mapping_def demo_world_def demo_env_def
          demo_blobs_def atna_link_def generate_sas_url_def Let_def start_def)
qed

lemma atna_scan_skip:
  assumes "\<forall>c\<in>set pre. snd (list_blobs w (account_url bsc) c) = None
                        \<and> matching_blobs w bsc upload_id c = []"
  shows "atna_scan w bsc account upload_id (pre @ rest) s = atna_scan w bsc account upload_id rest s"
  using assms
proof (induction pre)
  case Nil
  show ?case by simp
next
  case (Cons c pre)
  then have "snd (list_blobs w (account_url bsc) c) = None"
    and "find (\<lambda>b. py_in upload_id (name b)) (fst (list_blobs w (account_url bsc) c)) = None"
    by (simp_all add: matching_blobs_def find_filter_None)
  with Cons show ?case
    by (cases "list_blobs w (account_url bsc) c") simp
qed

text \<open>
  C6: the containers are scanned in the configured order and, in each, the blobs in listing
  order. When no container before \<open>c\<close> has a matching blob (and their listings end
  normally) and \<open>b\<close> is the first blob of \<open>c\<close> whose name contains the upload identifier, the
  scan returns at once with the link for \<open>b\<close> in \<open>c\<close>, one single link, whatever the rest of
  the listing and the later containers hold (or with the exception of the link issuer).
  When every listing ends normally and no blob matches, the answer is
  \<open>No file found matching upload_id\<close> with status 404.
\<close>

theorem upload_tracking_first_match:
  "(cs = pre @ c # post
      \<and> (\<forall>c'\<in>set pre. snd (list_blobs w (account_url bsc) c') = None
                        \<and> matching_blobs w bsc upload_id c' = [])
      \<and> fst (list_blobs w (account_url bsc) c) = bpre @ b # bpost
      \<and> (\<forall>x\<in>set bpre. \<not> py_in upload_id (name x)) \<and> py_in upload_id (name b)
    \<longrightarrow> atna_scan w bsc account upload_id cs s =
          (case generate_sas_url w bsc account c (name b) default_expiry_minutes s of
             (Inl e, s1) \<Rightarrow> (Inl e, s1)
           | (Inr url, s1) \<Rightarrow> (Inr (JsonLink (''SAS link generated for '' @ name b) url, 200), s1)))
   \<and> ((\<forall>c\<in>set cs. snd (list_blobs w (account_url bsc) c) = None
                     \<and> matching_blobs w bsc upload_id c = [])
    \<longrightarrow> atna_scan w bsc account upload_id cs s =
          (Inr (JsonError ''No file found matching upload_id'', 404), s))"
proof (intro conjI impI)
  assume a: "cs = pre @ c # post
      \<and> (\<forall>c'\<in>set pre. snd (list_blobs w (account_url bsc) c') = None
                        \<and> matching_blobs w bsc upload_id c' = [])
      \<and> fst (list_blobs w (account_url bsc) c) = bpre @ b # bpost
      \<and> (\<forall>x\<in>set bpre. \<not> py_in upload_id (name x)) \<and> py_in upload_id (name b)"
  then have hit: "find (\<lambda>b. py_in upload_id (name b)) (fst (list_blobs w (account_url bsc) c)) = Some b"
    by (intro find_first [where pre = bpre and post = bpost]) auto
  have "atna_scan w bsc account upload_id cs s = atna_scan w bsc account upload_id (c # post) s"
    using a atna_scan_skip [of pre w bsc upload_id account "c # post" s] by simp
  also have "\<dots> = atna_link w bsc account c b s"
    using hit by (cases "list_blobs w (account_url bsc) c") simp
  finally show "atna_scan w bsc account upload_id cs s =
          (case generate_sas_url w bsc account c (name b) default_expiry_minutes s of
             (Inl e, s1) \<Rightarrow> (Inl e, s1)
           | (Inr url, s1) \<Rightarrow> (Inr (JsonLink (''SAS link generated for '' @ name b) url, 200), s1))"
    by (simp add: atna_link_def)
next
  assume "\<forall>c\<in>set cs. snd (list_blobs w (account_url bsc) c) = None
                     \<and> matching_blobs w bsc upload_id c = []"
  from atna_scan_skip [OF this, of account "[]" s]
  show "atna_scan w bsc account upload_id cs s =
          (Inr (JsonError ''No file found matching upload_id'', 404), s)"
    by simp
qed

theorem upload_tracking_first_match_witness:
  "fst (atna_scan demo_world (BlobServiceClient ''u'') (Some ''acct'') ''c1''
          [Some ''atna'', Some ''byow'', Some ''mce''] start)
     = Inr (JsonLink ''SAS link generated for c1_jan''
              ''https://acct.blob.core.windows.net/byow/c1_jan?sig'', 200)
   \<and> atna_scan demo_world (BlobServiceClient ''u'') (Some ''acct'') ''zz''
          [Some ''atna'', Some ''byow'', Some ''mce''] start
     = (Inr (JsonError ''No file found matching upload_id'', 404), start)"
proof -
  let ?bsc = "BlobServiceClient ''u''"
  let ?cs = "[Some ''atna'', Some ''byow'', Some ''mce'']"
  let ?b = "\<lparr>name = ''c1_jan'', last_modified = 1\<rparr>"
  have hit: "?cs = [Some ''atna''] @ Some ''byow'' # [Some ''mce'']
      \<and> (\<forall>c'\<in>set [Some ''atna'']. snd (list_blobs demo_world (account_url ?bsc) c') = None
                        \<and> matching_blobs demo_world ?bsc ''c1'' c' = [])
      \<and> fst (list_blobs demo_world (account_url ?bsc) (Some ''byow''))
           = [] @ ?b # [\<lparr>name = ''c1_mar'', last_modified = 7\<rparr>, \<lparr>name = ''c9_apr'', last_modified = 9\<rparr>]
      \<and> (\<forall>x\<in>set []. \<not> py_in ''c1'' (name x)) \<and> py_in ''c1'' (name ?b)"
    by (simp add: demo_world_def demo_blobs_def matching_blobs_def)
  have miss: "\<forall>c\<in>set ?cs. snd (list_blobs demo_world (account_url ?bsc) c) = None
                     \<and> matching_blobs demo_world ?bsc ''zz'' c = []"
    by (simp add: demo_world_def demo_blobs_def matching_blobs_def)
  have gen: "generate_sas_url demo_world ?bsc (Some ''acct'') (Some ''byow'') (name ?b)
               default_expiry_minutes start
             = (Inr ''https://acct.blob.core.windows.net/byow/c1_jan?sig'',
                snd (generate_sas_url demo_world ?bsc (Some ''acct'') (Some ''byow'') (name ?b)
                       default_expiry_minutes start))"
    by (simp add: generate_sas_url_def demo_world_def Let_def)
  from upload_tracking_first_match [of ?cs "[Some ''atna'']" "Some ''byow''" "[Some ''mce'']"
      demo_world ?bsc "''c1''" "[]" ?b _ "Some ''acct''" start] hit
  have "atna_scan demo_world ?bsc (Some ''acct'') ''c1'' ?cs start =
          (case generate_sas_url demo_world ?bsc (Some ''acct'') (Some ''byow'') (name ?b)
                  default_expiry_minutes start of
             (Inl e, s1) \<Rightarrow> (Inl e, s1)
           | (Inr url, s1) \<Rightarrow> (Inr (JsonLink (''SAS link generated for '' @ name ?b) url, 200), s1))"
    by blast
  then have one: "fst (atna_scan demo_world ?bsc (Some ''acct'') ''c1'' ?cs start)
     = Inr (JsonLink ''SAS link generated for c1_jan''
              ''https://acct.blob.core.windows.net/byow/c1_jan?sig'', 200)"
    by (subst (asm) gen) simp
  from upload_tracking_first_match [of ?cs _ _ _ demo_world ?bsc "''zz''" _ _ _ "Some ''acct''" start] miss
  have "atna_scan demo_world ?bsc (Some ''acct'') ''zz'' ?cs start
     = (Inr (JsonError ''No file found matching upload_id'', 404), start)"
    by blast
  with one show ?thesis by simp
qed

section \<open>Processed-workbook strategy\<close>

lemma generate_sas_url_succeeds:
  assumes "issuance_succeeds w"
  shows "\<exists>url s1. generate_sas_url w bsc account container blob_name ttl s = (Inr url, s1)"
proof -
  from assms obtain k where
    k: "get_user_delegation_key w (account_url bsc) (utcnow w (Suc (ticks s)))
          (utcnow w (ticks s) + timedelta_minutes ttl) = Inr k"
    unfolding issuance_succeeds_def by blast
  from assms obtain token where
    "generate_blob_sas w \<lparr>sas_account_name = account, sas_container_name = container,
        sas_blob_name = blob_name, user_delegation_key = k,
        permission = BlobSasPermissions_read,
        expiry = utcnow w (ticks s) + timedelta_minutes ttl\<rparr> = Inr token"
    unfolding issuance_succeeds_def by blast
  with k show ?thesis
    by (simp add: generate_sas_url_def Let_def)
qed

lemma f5_find_None:
  "find (\<lambda>b. name b = f) (filter (\<lambda>b. prefix f (name b)) bs) = None \<longleftrightarrow> f \<notin> name ` set bs"
  by (induction bs) auto















section \<open>Recency strategy\<close>

lemma py_max_append: "py_max key m (xs @ ys) = py_max key (py_max key m xs) ys"
  by (induction xs arbitrary: m) auto

lemma py_max_Pair:
  "py_max (\<lambda>x. last_modified (snd x)) (c, m) (map (Pair c) ms) = (c, py_max last_modified m ms)"
  by (induction ms arbitrary: m) auto

lemma py_max_first:
  "\<exists>pre post. m # xs = pre @ py_max key m xs # post
     \<and> (\<forall>x\<in>set pre. key x < key (py_max key m xs))
     \<and> (\<forall>x\<in>set post. key x \<le> key (py_max key m xs))"
proof (induction xs arbitrary: m)
  case Nil
  show ?case by (intro exI [of _ "[]"]) simp
next
  case (Cons x xs)
  define m' where "m' = (if key m < key x then x else m)"
  define r where "r = py_max key m' xs"
  have r: "py_max key m (x # xs) = r" by (simp add: r_def m'_def)
  from Cons.IH [of m'] obtain pre post where
    split: "m' # xs = pre @ r # post"
    and pre: "\<forall>y\<in>set pre. key y < key r"
    and post: "\<forall>y\<in>set post. key y \<le> key r"
    unfolding r_def by blast
  have top: "key m' \<le> key r" unfolding r_def by (rule py_max_ge) simp
  show ?case
  proof (cases "key m < key x")
    case True
    then have m': "m' = x" by (simp add: m'_def)
    have "key m < key r" using True top m' by simp
    with pre have "\<forall>y\<in>set (m # pre). key y < key r" by simp
    moreover have "m # x # xs = (m # pre) @ r # post" using split m' by simp
    ultimately show ?thesis unfolding r using post by blast
  next
    case False
    then have m': "m' = m" by (simp add: m'_def)
    show ?thesis
    proof (cases pre)
      case Nil
      with split m' have rm: "r = m" and xs: "post = xs" by simp_all
      have "m # x # xs = [] @ r # (x # xs)" using rm by simp
      moreover have "\<forall>y\<in>set (x # xs). key y \<le> key r"
        using post xs rm False by auto
      moreover have "\<forall>y\<in>set []. key y < key r" by simp
      ultimately show ?thesis unfolding r by blast
    next
      case (Cons p pre')
      with split m' have p: "p = m" and xs: "xs = pre' @ r # post" by simp_all
      have "key m < key r" using pre Cons p by simp
      with False have "key x < key r" by simp
      with pre Cons p have "\<forall>y\<in>set (m # x # pre'). key y < key r" by simp
      moreover have "m # x # xs = (m # x # pre') @ r # post" using xs by simp
      ultimately show ?thesis unfolding r using post by blast
    qed
  qed
qed

lemma candidates_Cons:
  "candidates w bsc sub (c # cs) = map (Pair c) (matching_blobs w bsc sub c) @ candidates w bsc sub cs"
  by (simp add: candidates_def)

lemma set_candidates:
  "(c, b) \<in> set (candidates w bsc sub cs) \<longleftrightarrow> c \<in> set cs \<and> b \<in> set (matching_blobs w bsc sub c)"
  by (auto simp: candidates_def)

lemma latest_scan_py_max:
  assumes "\<forall>c\<in>set cs. snd (list_blobs w (account_url bsc) c) = None"
  shows "latest_scan w bsc cid cs latest =
           Inr (case latest of
                  None \<Rightarrow> (case candidates w bsc cid cs of
                             [] \<Rightarrow> None
                           | x # xs \<Rightarrow> Some (py_max (\<lambda>x. last_modified (snd x)) x xs))
                | Some y \<Rightarrow> Some (py_max (\<lambda>x. last_modified (snd x)) y (candidates w bsc cid cs)))"
  using assms
proof (induction cs arbitrary: latest)
  case Nil
  show ?case by (simp add: candidates_def split: option.splits)
next
  case (Cons c cs)
  let ?k = "\<lambda>x :: string option \<times> blob. last_modified (snd x)"
  obtain blobs where lb: "list_blobs w (account_url bsc) c = (blobs, None)"
    using Cons.prems by (cases "list_blobs w (account_url bsc) c") auto
  have mb: "matching_blobs w bsc cid c = filter (\<lambda>b. py_in cid (name b)) blobs"
    by (simp add: matching_blobs_def lb)
  have ok: "\<forall>c\<in>set cs. snd (list_blobs w (account_url bsc) c) = None"
    using Cons.prems by simp
  note IH = Cons.IH [OF ok]
  show ?case
  proof (cases "filter (\<lambda>b. py_in cid (name b)) blobs")
    case Nil
    then have a: "latest_scan w bsc cid (c # cs) latest = latest_scan w bsc cid cs latest"
      by (simp add: lb)
    have b: "candidates w bsc cid (c # cs) = candidates w bsc cid cs"
      by (simp add: candidates_Cons mb Nil)
    show ?thesis unfolding a b by (rule IH)
  next
    case (Cons m ms)
    let ?mr = "py_max last_modified m ms"
    have cands: "candidates w bsc cid (c # cs)
                   = (c, m) # (map (Pair c) ms @ candidates w bsc cid cs)"
      by (simp add: candidates_Cons mb Cons)
    have block: "py_max ?k (c, m) (map (Pair c) ms @ candidates w bsc cid cs)
                   = py_max ?k (c, ?mr) (candidates w bsc cid cs)"
      by (simp add: py_max_append py_max_Pair)
    show ?thesis
    proof (cases latest)
      case None
      then have "latest_scan w bsc cid (c # cs) latest
                   = latest_scan w bsc cid cs (Some (c, ?mr))"
        by (simp add: lb Cons)
      then show ?thesis using IH [of "Some (c, ?mr)"] None cands block by simp
    next
      case (Some y)
      obtain lc lblob where y: "y = (lc, lblob)" by (cases y)
      have step: "latest_scan w bsc cid (c # cs) latest
                   = latest_scan w bsc cid cs
                       (if last_modified lblob < last_modified ?mr then Some (c, ?mr) else Some y)"
        by (simp add: lb Cons Some y)
      have "py_max ?k y ((c, m) # (map (Pair c) ms @ candidates w bsc cid cs))
              = py_max ?k (py_max ?k y ((c, m) # map (Pair c) ms)) (candidates w bsc cid cs)"
        using py_max_append [of ?k y "(c, m) # map (Pair c) ms" "candidates w bsc cid cs"]
        by simp
      also have "py_max ?k y ((c, m) # map (Pair c) ms)
                   = (if last_modified lblob < last_modified ?mr then (c, ?mr) else y)"
        by (subst py_max_unfold) (simp add: py_max_Pair y)
      finally have spec: "py_max ?k y (candidates w bsc cid (c # cs))
              = py_max ?k (if last_modified lblob < last_modified ?mr then (c, ?mr) else y)
                  (candidates w bsc cid cs)"
        using cands by simp
      show ?thesis
        unfolding step
        using IH [of "if last_modified lblob < last_modified ?mr then Some (c, ?mr) else Some y"]
          Some spec
        by (simp split: if_splits)
    qed
  qed
qed

text \<open>
  C4: when every listing ends normally and some blob name contains \<open>company_id\<close>, the loop
  keeps one candidate \<open>(c, b)\<close>: \<open>b\<close> is listed in the configured container \<open>c\<close> and its name
  contains \<open>company_id\<close>; in the scan order of the candidates (containers in configured
  order, blobs in listing order) every candidate before it is strictly older and every
  candidate after it is no newer. So \<open>b\<close> carries the greatest timestamp of all candidates,
  and a candidate of a later container that only equals that timestamp does not replace
  it: the earlier container wins the tie. The handler issues the link for exactly that
  container and blob.
\<close>

theorem recency_choice:
  assumes ok: "\<forall>c\<in>set cs. snd (list_blobs w (account_url bsc) c) = None"
    and ne: "candidates w bsc cid cs \<noteq> []"
  shows "\<exists>c b pre post.
           latest_scan w bsc cid cs None = Inr (Some (c, b))
         \<and> c \<in> set cs \<and> b \<in> set (fst (list_blobs w (account_url bsc) c)) \<and> py_in cid (name b)
         \<and> candidates w bsc cid cs = pre @ (c, b) # post
         \<and> (\<forall>x\<in>set pre. last_modified (snd x) < last_modified b)
         \<and> (\<forall>x\<in>set post. last_modified (snd x) \<le> last_modified b)
         \<and> (mapping_lookup w app_name = Inr info \<and> containers info = cs \<longrightarrow>
              handle_latest_blob_download w bsc app_name cid s =
                (case generate_sas_url w bsc (account_name info) c (name b)
                        default_expiry_minutes s of
                   (Inr url, s1) \<Rightarrow>
                     (Inr (JsonLink (''Download link for '' @ name b @ '' generated'') url, 200), s1)
                 | (Inl e, s1) \<Rightarrow>
                     (Inr (JsonError ''Failed to generate download link'', 500),
                      s1\<lparr>trace := trace s1 @
                         [LogError (''Failed to generate SAS URL: '' @ exn_str e)]\<rparr>)))"
proof -
  let ?k = "\<lambda>x :: string option \<times> blob. last_modified (snd x)"
  from ne obtain x xs where cands: "candidates w bsc cid cs = x # xs"
    by (cases "candidates w bsc cid cs") auto
  obtain c b where r: "py_max ?k x xs = (c, b)" by (cases "py_max ?k x xs")
  have scan: "latest_scan w bsc cid cs None = Inr (Some (c, b))"
    using latest_scan_py_max [OF ok, of cid None] cands r by simp
  from py_max_first [of x xs ?k] obtain pre post where
    split: "x # xs = pre @ (c, b) # post"
    and pre: "\<forall>y\<in>set pre. ?k y < last_modified b"
    and post: "\<forall>y\<in>set post. ?k y \<le> last_modified b"
    unfolding r by auto
  have "(c, b) \<in> set (candidates w bsc cid cs)" using cands split by simp
  then have mem: "c \<in> set cs" "b \<in> set (fst (list_blobs w (account_url bsc) c))" "py_in cid (name b)"
    by (auto simp: set_candidates matching_blobs_def)
  have handler: "mapping_lookup w app_name = Inr info \<and> containers info = cs \<longrightarrow>
              handle_latest_blob_download w bsc app_name cid s =
                (case generate_sas_url w bsc (account_name info) c (name b)
                        default_expiry_minutes s of
                   (Inr url, s1) \<Rightarrow>
                     (Inr (JsonLink (''Download link for '' @ name b @ '' generated'') url, 200), s1)
                 | (Inl e, s1) \<Rightarrow>
                     (Inr (JsonError ''Failed to generate download link'', 500),
                      s1\<lparr>trace := trace s1 @
                         [LogError (''Failed to generate SAS URL: '' @ exn_str e)]\<rparr>))"
    using scan by (auto simp: handle_latest_blob_download_def split: prod.splits sum.splits)
  show ?thesis
    using scan mem cands split pre post handler by (metis (no_types, lifting))
qed


theorem recency_choice_witness:
  "latest_scan demo_world (BlobServiceClient ''u'') ''c1'' [Some ''byow'', Some ''mce''] None
     = Inr (Some (Some ''byow'', \<lparr>name = ''c1_mar'', last_modified = 7\<rparr>))
   \<and> fst (handle_latest_blob_download demo_world (BlobServiceClient ''u'') ''BYOW'' ''c1'' start)
     = Inr (JsonLink ''Download link for c1_mar generated''
              ''https://acct.blob.core.windows.net/byow/c1_mar?sig'', 200)"
proof -
  let ?bsc = "BlobServiceClient ''u''"
  let ?jan = "\<lparr>name = ''c1_jan'', last_modified = 1\<rparr>"
  let ?mar = "\<lparr>name = ''c1_mar'', last_modified = 7\<rparr>"
  let ?feb = "\<lparr>name = ''c1_feb'', last_modified = 7\<rparr>"
  let ?info = "\<lparr>containers = [Some ''byow''], account_name = Some ''acct''\<rparr>"
  have ok2: "\<forall>c\<in>set [Some ''byow'', Some ''mce'']. snd (list_blobs demo_world (account_url ?bsc) c) = None"
    by (simp add: demo_world_def demo_blobs_def)
  have cands2: "candidates demo_world ?bsc ''c1'' [Some ''byow'', Some ''mce'']
                  = [(Some ''byow'', ?jan), (Some ''byow'', ?mar), (Some ''mce'', ?feb)]"
    by (simp add: candidates_def matching_blobs_def demo_world_def demo_blobs_def)
  then have ne2: "candidates demo_world ?bsc ''c1'' [Some ''byow'', Some ''mce''] \<noteq> []" by simp
  from recency_choice [OF ok2 ne2] obtain c b pre post where
    scan: "latest_scan demo_world ?bsc ''c1'' [Some ''byow'', Some ''mce''] None = Inr (Some (c, b))"
    and split: "[(Some ''byow'', ?jan), (Some ''byow'', ?mar), (Some ''mce'', ?feb)] = pre @ (c, b) # post"
    and pre: "\<forall>x\<in>set pre. last_modified (snd x) < last_modified b"
    and post: "\<forall>x\<in>set post. last_modified (snd x) \<le> last_modified b"
    unfolding cands2 by blast
  from split pre post have "(c, b) = (Some ''byow'', ?mar)"
    by (auto simp: Cons_eq_append_conv)
  with scan have one: "latest_scan demo_world ?bsc ''c1'' [Some ''byow'', Some ''mce''] None
     = Inr (Some (Some ''byow'', ?mar))" by simp
  have ok1: "\<forall>c\<in>set [Some ''byow'']. snd (list_blobs demo_world (account_url ?bsc) c) = None"
    by (simp add: demo_world_def demo_blobs_def)
  have cands1: "candidates demo_world ?bsc ''c1'' [Some ''byow'']
                  = [(Some ''byow'', ?jan), (Some ''byow'', ?mar)]"
    by (simp add: candidates_def matching_blobs_def demo_world_def demo_blobs_def)
  then have ne1: "candidates demo_world ?bsc ''c1'' [Some ''byow''] \<noteq> []" by simp
  have cfg: "mapping_lookup demo_world ''BYOW'' = Inr ?info \<and> containers ?info = [Some ''byow'']"
    by (simp add: mapping_lookup_def app_container_mapping_def demo_world_def demo_env_def)
  from recency_choice [OF ok1 ne1, of "''BYOW''" ?info start] cfg obtain c' b' pre' post' where
    split': "[(Some ''byow'', ?jan), (Some ''byow'', ?mar)] = pre' @ (c', b') # post'"
    and pre': "\<forall>x\<in>set pre'. last_modified (snd x) < last_modified b'"
    and post': "\<forall>x\<in>set post'. last_modified (snd x) \<le> last_modified b'"
    and handler: "handle_latest_blob_download demo_world ?bsc ''BYOW'' ''c1'' start =
                (case generate_sas_url demo_world ?bsc (account_name ?info) c' (name b')
                        default_expiry_minutes start of
                   (Inr url, s1) \<Rightarrow>
                     (Inr (JsonLink (''Download link for '' @ name b' @ '' generated'') url, 200), s1)
                 | (Inl e, s1) \<Rightarrow>
                     (Inr (JsonError ''Failed to generate download link'', 500),
                      s1\<lparr>trace := trace s1 @
                         [LogError (''Failed to generate SAS URL: '' @ exn_str e)]\<rparr>))"
    unfolding cands1 by blast
  from split' pre' post' have "(c', b') = (Some ''byow'', ?mar)"
    by (auto simp: Cons_eq_append_conv)
  with handler have two: "fst (handle_latest_blob_download demo_world ?bsc ''BYOW'' ''c1'' start)
     = Inr (JsonLink ''Download link for c1_mar generated''
              ''https://acct.blob.core.windows.net/byow/c1_mar?sig'', 200)"
    by (simp add: generate_sas_url_def demo_world_def Let_def)
  from one two show ?thesis by simp
qed

section \<open>Content-match strategy\<close>

lemma paloalto_try_cases:
  "paloalto_try w bsc account c target b s =
     (case csp_column w bsc c b of
        Inl e \<Rightarrow> (Inl e, s)
      | Inr None \<Rightarrow> (Inr None, s)
      | Inr (Some column) \<Rightarrow>
          (if csp_match w bsc target c b then
             (case generate_sas_url w bsc account c (name b) default_expiry_minutes s of
                (Inl e, s1) \<Rightarrow> (Inl e, s1)
              | (Inr url, s1) \<Rightarrow> (Inr (Some \<lparr>mf_file = name b, download_url = url\<rparr>), s1))
           else (Inr None, s)))"
  by (simp add: paloalto_try_def csp_column_def csp_match_def split: sum.splits option.splits)

lemma csp_match_column:
  "csp_match w bsc target c b \<Longrightarrow> \<exists>column. csp_column w bsc c b = Inr (Some column)"
  by (auto simp: csp_match_def split: sum.splits option.splits)

text \<open>One turn of the loop over the blobs.\<close>

lemma paloalto_step:
  "\<exists>add s1.
      paloalto_scan_blobs w bsc account c target (b # rest) acc s
        = paloalto_scan_blobs w bsc account c target rest (acc @ add) s1
    \<and> (\<exists>evs. trace s1 = trace s @ evs)
    \<and> (\<forall>m\<in>set add. csp_match w bsc target c b \<and> linked_to w bsc account m (name b) c)
    \<and> (\<forall>e. csp_column w bsc c b = Inl e \<longrightarrow> blob_warning b e \<in> set (trace s1))
    \<and> (csp_match w bsc target c b \<longrightarrow>
          (\<exists>m. add = [m])
          \<or> (\<exists>e s2. generate_sas_url w bsc account c (name b) default_expiry_minutes s = (Inl e, s2)
                    \<and> blob_warning b e \<in> set (trace s1)))
    \<and> (issuance_succeeds w \<longrightarrow>
          map mf_file add = (if csp_match w bsc target c b then [name b] else []))"
proof (cases "csp_column w bsc c b")
  case (Inl e)
  then have nm: "\<not> csp_match w bsc target c b" by (simp add: csp_match_def)
  let ?s1 = "s\<lparr>trace := trace s @ [blob_warning b e]\<rparr>"
  have "paloalto_scan_blobs w bsc account c target (b # rest) acc s
        = paloalto_scan_blobs w bsc account c target rest (acc @ []) ?s1"
    by (simp add: paloalto_try_cases Inl blob_warning_def)
  with Inl nm show ?thesis
    by (intro exI [of _ "[]"] exI [of _ ?s1]) simp
next
  case (Inr col)
  show ?thesis
  proof (cases "csp_match w bsc target c b")
    case False
    have "paloalto_scan_blobs w bsc account c target (b # rest) acc s
        = paloalto_scan_blobs w bsc account c target rest (acc @ []) s"
      using Inr False by (simp add: paloalto_try_cases split: option.splits)
    with Inr False show ?thesis
      by (intro exI [of _ "[]"] exI [of _ s]) simp
  next
    case True
    then obtain column where col: "csp_column w bsc c b = Inr (Some column)"
      using csp_match_column by blast
    obtain g s1 where gen: "generate_sas_url w bsc account c (name b) default_expiry_minutes s = (g, s1)"
      by (cases "generate_sas_url w bsc account c (name b) default_expiry_minutes s")
    from generate_sas_url_state [OF gen] obtain evs where evs: "trace s1 = trace s @ evs" by blast
    show ?thesis
    proof (cases g)
      case (Inl e)
      have fails: "\<not> issuance_succeeds w"
        using generate_sas_url_succeeds [of w bsc account c "name b" default_expiry_minutes s]
          gen Inl by auto
      let ?s2 = "s1\<lparr>trace := trace s1 @ [blob_warning b e]\<rparr>"
      have "paloalto_scan_blobs w bsc account c target (b # rest) acc s
        = paloalto_scan_blobs w bsc account c target rest (acc @ []) ?s2"
        using col True gen Inl by (simp add: paloalto_try_cases blob_warning_def)
      moreover have "\<exists>evs'. trace ?s2 = trace s @ evs'" using evs by simp
      moreover have "\<exists>e s2. generate_sas_url w bsc account c (name b) default_expiry_minutes s
                               = (Inl e, s2) \<and> blob_warning b e \<in> set (trace ?s2)"
        using gen Inl by auto
      ultimately show ?thesis
        using col fails by (intro exI [of _ "[]"] exI [of _ ?s2]) auto
    next
      case (Inr url)
      let ?m = "\<lparr>mf_file = name b, download_url = url\<rparr>"
      have "paloalto_scan_blobs w bsc account c target (b # rest) acc s
        = paloalto_scan_blobs w bsc account c target rest (acc @ [?m]) s1"
        using col True gen Inr by (simp add: paloalto_try_cases)
      moreover have "linked_to w bsc account ?m (name b) c"
        unfolding linked_to_def using gen Inr by auto
      ultimately show ?thesis
        using col True evs by (intro exI [of _ "[?m]"] exI [of _ s1]) (auto simp: linked_to_def)
    qed
  qed
qed

lemma paloalto_scan_blobs_props:
  "\<exists>new s'.
      paloalto_scan_blobs w bsc account c target bs acc s = (acc @ new, s')
    \<and> (\<exists>evs. trace s' = trace s @ evs)
    \<and> (\<forall>m\<in>set new. \<exists>b\<in>set bs. csp_match w bsc target c b \<and> linked_to w bsc account m (name b) c)
    \<and> (\<forall>b\<in>set bs. \<forall>e. csp_column w bsc c b = Inl e \<longrightarrow> blob_warning b e \<in> set (trace s'))
    \<and> (\<forall>b\<in>set bs. csp_match w bsc target c b \<longrightarrow>
          (\<exists>m\<in>set new. linked_to w bsc account m (name b) c)
          \<or> (\<exists>e s1 s2. generate_sas_url w bsc account c (name b) default_expiry_minutes s1
                         = (Inl e, s2)
                       \<and> blob_warning b e \<in> set (trace s')))
    \<and> (issuance_succeeds w \<longrightarrow>
          map mf_file new = map name (filter (csp_match w bsc target c) bs))"
proof (induction bs arbitrary: acc s)
  case Nil
  show ?case by (intro exI [of _ "[]"] exI [of _ s]) simp
next
  case (Cons b rest)
  from paloalto_step [of w bsc account c target b rest acc s] obtain add s1 where
    step: "paloalto_scan_blobs w bsc account c target (b # rest) acc s
             = paloalto_scan_blobs w bsc account c target rest (acc @ add) s1"
    and tr1: "\<exists>evs. trace s1 = trace s @ evs"
    and add: "\<forall>m\<in>set add. csp_match w bsc target c b \<and> linked_to w bsc account m (name b) c"
    and warn1: "\<forall>e. csp_column w bsc c b = Inl e \<longrightarrow> blob_warning b e \<in> set (trace s1)"
    and cover1: "csp_match w bsc target c b \<longrightarrow>
          (\<exists>m. add = [m])
          \<or> (\<exists>e s2. generate_sas_url w bsc account c (name b) default_expiry_minutes s = (Inl e, s2)
                    \<and> blob_warning b e \<in> set (trace s1))"
    and exact1: "issuance_succeeds w \<longrightarrow>
          map mf_file add = (if csp_match w bsc target c b then [name b] else [])"
    by blast
  from Cons.IH [of "acc @ add" s1] obtain new s' where
    rest: "paloalto_scan_blobs w bsc account c target rest (acc @ add) s1 = ((acc @ add) @ new, s')"
    and tr2: "\<exists>evs. trace s' = trace s1 @ evs"
    and new: "\<forall>m\<in>set new. \<exists>b\<in>set rest. csp_match w bsc target c b
                 \<and> linked_to w bsc account m (name b) c"
    and warn2: "\<forall>b\<in>set rest. \<forall>e. csp_column w bsc c b = Inl e \<longrightarrow> blob_warning b e \<in> set (trace s')"
    and cover2: "\<forall>b\<in>set rest. csp_match w bsc target c b \<longrightarrow>
          (\<exists>m\<in>set new. linked_to w bsc account m (name b) c)
          \<or> (\<exists>e s1 s2. generate_sas_url w bsc account c (name b) default_expiry_minutes s1
                         = (Inl e, s2)
                       \<and> blob_warning b e \<in> set (trace s'))"
    and exact2: "issuance_succeeds w \<longrightarrow>
          map mf_file new = map name (filter (csp_match w bsc target c) rest)"
    by blast
  from tr2 have sub: "set (trace s1) \<subseteq> set (trace s')" by auto
  have a: "paloalto_scan_blobs w bsc account c target (b # rest) acc s = (acc @ (add @ new), s')"
    using step rest by simp
  have b: "\<exists>evs. trace s' = trace s @ evs" using tr1 tr2 by auto
  have c: "\<forall>m\<in>set (add @ new). \<exists>b'\<in>set (b # rest). csp_match w bsc target c b'
             \<and> linked_to w bsc account m (name b') c"
    using add new by auto
  have d: "\<forall>b'\<in>set (b # rest). \<forall>e. csp_column w bsc c b' = Inl e
             \<longrightarrow> blob_warning b' e \<in> set (trace s')"
    using warn1 warn2 sub by auto
  have e: "\<forall>b'\<in>set (b # rest). csp_match w bsc target c b' \<longrightarrow>
          (\<exists>m\<in>set (add @ new). linked_to w bsc account m (name b') c)
          \<or> (\<exists>e s1 s2. generate_sas_url w bsc account c (name b') default_expiry_minutes s1
                         = (Inl e, s2)
                       \<and> blob_warning b' e \<in> set (trace s'))"
  proof (intro ballI impI)
    fix b' assume mem: "b' \<in> set (b # rest)" and match: "csp_match w bsc target c b'"
    show "(\<exists>m\<in>set (add @ new). linked_to w bsc account m (name b') c)
          \<or> (\<exists>e s1 s2. generate_sas_url w bsc account c (name b') default_expiry_minutes s1
                         = (Inl e, s2)
                       \<and> blob_warning b' e \<in> set (trace s'))"
    proof (cases "b' = b")
      case True
      with cover1 match have "(\<exists>m. add = [m])
          \<or> (\<exists>e s2. generate_sas_url w bsc account c (name b) default_expiry_minutes s = (Inl e, s2)
                    \<and> blob_warning b e \<in> set (trace s1))" by simp
      then show ?thesis
      proof
        assume "\<exists>m. add = [m]"
        then obtain m where m: "add = [m]" by blast
        with add have "linked_to w bsc account m (name b) c" by simp
        with m True show ?thesis by auto
      next
        assume "\<exists>e s2. generate_sas_url w bsc account c (name b) default_expiry_minutes s = (Inl e, s2)
                    \<and> blob_warning b e \<in> set (trace s1)"
        with sub True show ?thesis by blast
      qed
    next
      case False
      with mem have "b' \<in> set rest" by simp
      with cover2 match
      have "(\<exists>m\<in>set new. linked_to w bsc account m (name b') c)
          \<or> (\<exists>e s1 s2. generate_sas_url w bsc account c (name b') default_expiry_minutes s1
                         = (Inl e, s2)
                       \<and> blob_warning b' e \<in> set (trace s'))"
        by blast
      then show ?thesis by auto
    qed
  qed
  have f: "issuance_succeeds w \<longrightarrow>
          map mf_file (add @ new) = map name (filter (csp_match w bsc target c) (b # rest))"
    using exact1 exact2 by simp
  from a b c d e f show ?case by blast
qed

lemma paloalto_scan_containers_props:
  assumes "\<forall>c\<in>set cs. snd (list_blobs w (account_url bsc) c) = None"
  shows "\<exists>new s'.
      paloalto_scan_containers w bsc account target cs acc s = (Inr (acc @ new), s')
    \<and> (\<exists>evs. trace s' = trace s @ evs)
    \<and> (\<forall>m\<in>set new. \<exists>c\<in>set cs. \<exists>b\<in>set (fst (list_blobs w (account_url bsc) c)).
          csp_match w bsc target c b \<and> linked_to w bsc account m (name b) c)
    \<and> (\<forall>c\<in>set cs. \<forall>b\<in>set (fst (list_blobs w (account_url bsc) c)).
          \<forall>e. csp_column w bsc c b = Inl e \<longrightarrow> blob_warning b e \<in> set (trace s'))
    \<and> (\<forall>c\<in>set cs. \<forall>b\<in>set (fst (list_blobs w (account_url bsc) c)).
          csp_match w bsc target c b \<longrightarrow>
            (\<exists>m\<in>set new. linked_to w bsc account m (name b) c)
            \<or> (\<exists>e s1 s2. generate_sas_url w bsc account c (name b) default_expiry_minutes s1
                           = (Inl e, s2)
                         \<and> blob_warning b e \<in> set (trace s')))
    \<and> (issuance_succeeds w \<longrightarrow>
          map mf_file new =
            concat (map (\<lambda>c. map name (filter (csp_match w bsc target c)
                                          (fst (list_blobs w (account_url bsc) c)))) cs))"
  using assms
proof (induction cs arbitrary: acc s)
  case Nil
  show ?case by (intro exI [of _ "[]"] exI [of _ s]) simp
next
  case (Cons c cs)
  obtain blobs where lb: "list_blobs w (account_url bsc) c = (blobs, None)"
    using Cons.prems by (cases "list_blobs w (account_url bsc) c") auto
  from paloalto_scan_blobs_props [of w bsc account c target blobs acc s] obtain add s1 where
    blobs: "paloalto_scan_blobs w bsc account c target blobs acc s = (acc @ add, s1)"
    and tr1: "\<exists>evs. trace s1 = trace s @ evs"
    and add: "\<forall>m\<in>set add. \<exists>b\<in>set blobs. csp_match w bsc target c b
                \<and> linked_to w bsc account m (name b) c"
    and warn1: "\<forall>b\<in>set blobs. \<forall>e. csp_column w bsc c b = Inl e \<longrightarrow> blob_warning b e \<in> set (trace s1)"
    and cover1: "\<forall>b\<in>set blobs. csp_match w bsc target c b \<longrightarrow>
          (\<exists>m\<in>set add. linked_to w bsc account m (name b) c)
          \<or> (\<exists>e s0 s2. generate_sas_url w bsc account c (name b) default_expiry_minutes s0
                         = (Inl e, s2)
                       \<and> blob_warning b e \<in> set (trace s1))"
    and exact1: "issuance_succeeds w \<longrightarrow>
          map mf_file add = map name (filter (csp_match w bsc target c) blobs)"
    by blast
  have ok: "\<forall>c\<in>set cs. snd (list_blobs w (account_url bsc) c) = None"
    using Cons.prems by simp
  from Cons.IH [OF ok, of "acc @ add" s1] obtain new s' where
    rest: "paloalto_scan_containers w bsc account target cs (acc @ add) s1
             = (Inr ((acc @ add) @ new), s')"
    and tr2: "\<exists>evs. trace s' = trace s1 @ evs"
    and new: "\<forall>m\<in>set new. \<exists>c\<in>set cs. \<exists>b\<in>set (fst (list_blobs w (account_url bsc) c)).
          csp_match w bsc target c b \<and> linked_to w bsc account m (name b) c"
    and warn2: "\<forall>c\<in>set cs. \<forall>b\<in>set (fst (list_blobs w (account_url bsc) c)).
          \<forall>e. csp_column w bsc c b = Inl e \<longrightarrow> blob_warning b e \<in> set (trace s')"
    and cover2: "\<forall>c\<in>set cs. \<forall>b\<in>set (fst (list_blobs w (account_url bsc) c)).
          csp_match w bsc target c b \<longrightarrow>
            (\<exists>m\<in>set new. linked_to w bsc account m (name b) c)
            \<or> (\<exists>e s1 s2. generate_sas_url w bsc account c (name b) default_expiry_minutes s1
                           = (Inl e, s2)
                         \<and> blob_warning b e \<in> set (trace s'))"
    and exact2: "issuance_succeeds w \<longrightarrow>
          map mf_file new =
            concat (map (\<lambda>c. map name (filter (csp_match w bsc target c)
                                          (fst (list_blobs w (account_url bsc) c)))) cs)"
    by blast
  from tr2 have sub: "set (trace s1) \<subseteq> set (trace s')" by auto
  have fb: "fst (list_blobs w (account_url bsc) c) = blobs" by (simp add: lb)
  have a: "paloalto_scan_containers w bsc account target (c # cs) acc s
             = (Inr (acc @ (add @ new)), s')"
    using lb blobs rest by simp
  have b: "\<exists>evs. trace s' = trace s @ evs" using tr1 tr2 by auto
  have c: "\<forall>m\<in>set (add @ new). \<exists>c'\<in>set (c # cs).
             \<exists>b\<in>set (fst (list_blobs w (account_url bsc) c')).
               csp_match w bsc target c' b \<and> linked_to w bsc account m (name b) c'"
  proof
    fix m assume "m \<in> set (add @ new)"
    then consider "m \<in> set add" | "m \<in> set new" by auto
    then show "\<exists>c'\<in>set (c # cs). \<exists>b\<in>set (fst (list_blobs w (account_url bsc) c')).
               csp_match w bsc target c' b \<and> linked_to w bsc account m (name b) c'"
    proof cases
      case 1
      with add obtain b where "b \<in> set blobs" "csp_match w bsc target c b"
        "linked_to w bsc account m (name b) c"
        by blast
      with fb show ?thesis by auto
    next
      case 2
      with new show ?thesis by auto
    qed
  qed
  have d: "\<forall>c'\<in>set (c # cs). \<forall>b\<in>set (fst (list_blobs w (account_url bsc) c')).
          \<forall>e. csp_column w bsc c' b = Inl e \<longrightarrow> blob_warning b e \<in> set (trace s')"
    using warn1 warn2 sub fb by auto
  have e: "\<forall>c'\<in>set (c # cs). \<forall>b\<in>set (fst (list_blobs w (account_url bsc) c')).
          csp_match w bsc target c' b \<longrightarrow>
            (\<exists>m\<in>set (add @ new). linked_to w bsc account m (name b) c')
            \<or> (\<exists>e s1 s2. generate_sas_url w bsc account c' (name b) default_expiry_minutes s1
                           = (Inl e, s2)
                         \<and> blob_warning b e \<in> set (trace s'))"
  proof (intro ballI impI)
    fix c' b assume c': "c' \<in> set (c # cs)"
      and mem: "b \<in> set (fst (list_blobs w (account_url bsc) c'))"
      and match: "csp_match w bsc target c' b"
    show "(\<exists>m\<in>set (add @ new). linked_to w bsc account m (name b) c')
            \<or> (\<exists>e s1 s2. generate_sas_url w bsc account c' (name b) default_expiry_minutes s1
                           = (Inl e, s2)
                         \<and> blob_warning b e \<in> set (trace s'))"
    proof (cases "c' = c")
      case True
      with mem fb match cover1
      have "(\<exists>m\<in>set add. linked_to w bsc account m (name b) c)
          \<or> (\<exists>e s0 s2. generate_sas_url w bsc account c (name b) default_expiry_minutes s0
                         = (Inl e, s2)
                       \<and> blob_warning b e \<in> set (trace s1))"
        by auto
      then show ?thesis
      proof
        assume "\<exists>m\<in>set add. linked_to w bsc account m (name b) c"
        with True show ?thesis by auto
      next
        assume "\<exists>e s0 s2. generate_sas_url w bsc account c (name b) default_expiry_minutes s0
                         = (Inl e, s2)
                       \<and> blob_warning b e \<in> set (trace s1)"
        with sub True show ?thesis by blast
      qed
    next
      case False
      with c' have "c' \<in> set cs" by simp
      with cover2 mem match
      have "(\<exists>m\<in>set new. linked_to w bsc account m (name b) c')
            \<or> (\<exists>e s1 s2. generate_sas_url w bsc account c' (name b) default_expiry_minutes s1
                           = (Inl e, s2)
                         \<and> blob_warning b e \<in> set (trace s'))"
        by blast
      then show ?thesis by auto
    qed
  qed
  have f: "issuance_succeeds w \<longrightarrow>
          map mf_file (add @ new) =
            concat (map (\<lambda>c. map name (filter (csp_match w bsc target c)
                                          (fst (list_blobs w (account_url bsc) c)))) (c # cs))"
    using exact1 exact2 fb by simp
  from a b c d e f show ?case by blast
qed

lemma paloalto_handler_scan:
  assumes "find_one (generic_docs w) cid = Some record"
    and "connection_details record = detail # details"
    and "detail ''csp_acct_name'' = Some raw_name" and "raw_name \<noteq> []"
    and "mapping_lookup w app_name = Inr info"
  shows "handle_paloalto_download w bsc app_name cid s =
           (case paloalto_scan_containers w bsc (account_name info) (normalise w raw_name)
                   (containers info) [] s of
              (Inl e, s1) \<Rightarrow> (Inl e, s1)
            | (Inr ms, s1) \<Rightarrow>
                (Inr (if ms \<noteq> [] then JsonFiles ''SAS links generated'' ms
                      else JsonMessage ''No matching data found'', 200), s1))"
  using assms
  by (simp add: handle_paloalto_download_def Let_def split: prod.splits sum.splits)




section \<open>Failures of the link issuer\<close>

text \<open>What each strategy does when the link issuer raises for a blob it has chosen: the
  recency handler answers with status 500, the content-match loop logs a warning and goes
  on with the next blob, the other two let the exception escape. Each asks for one
  credential and does not ask again.\<close>

lemma recency_link_failure:
  assumes "mapping_lookup w app_name = Inr info"
    and "latest_scan w bsc cid (containers info) None = Inr (Some (c, b))"
    and "generate_sas_url w bsc (account_name info) c (name b) default_expiry_minutes s = (Inl e, s1)"
  shows "handle_latest_blob_download w bsc app_name cid s =
          (Inr (JsonError ''Failed to generate download link'', 500),
           s1\<lparr>trace := trace s1 @ [LogError (''Failed to generate SAS URL: '' @ exn_str e)]\<rparr>)"
    and "key_requests (snd (handle_latest_blob_download w bsc app_name cid s)) = key_requests s + 1"
proof -
  show run: "handle_latest_blob_download w bsc app_name cid s =
          (Inr (JsonError ''Failed to generate download link'', 500),
           s1\<lparr>trace := trace s1 @ [LogError (''Failed to generate SAS URL: '' @ exn_str e)]\<rparr>)"
    using assms by (simp add: handle_latest_blob_download_def)
  have "key_requests s1 = key_requests s + 1"
    using generate_sas_url_state [OF assms(3)] by simp
  then show "key_requests (snd (handle_latest_blob_download w bsc app_name cid s)) = key_requests s + 1"
    unfolding run by (simp add: key_requests_def)
qed

lemma content_match_link_failure:
  assumes "csp_match w bsc target c b"
    and "generate_sas_url w bsc account c (name b) default_expiry_minutes s = (Inl e, s1)"
  shows "paloalto_scan_blobs w bsc account c target (b # rest) acc s =
          paloalto_scan_blobs w bsc account c target rest acc
            (s1\<lparr>trace := trace s1 @ [blob_warning b e]\<rparr>)"
    and "key_requests (s1\<lparr>trace := trace s1 @ [blob_warning b e]\<rparr>) = key_requests s + 1"
proof -
  from assms(1) obtain column where "csp_column w bsc c b = Inr (Some column)"
    using csp_match_column by blast
  with assms show "paloalto_scan_blobs w bsc account c target (b # rest) acc s =
          paloalto_scan_blobs w bsc account c target rest acc
            (s1\<lparr>trace := trace s1 @ [blob_warning b e]\<rparr>)"
    by (simp add: paloalto_try_cases blob_warning_def)
  have "key_requests s1 = key_requests s + 1"
    using generate_sas_url_state [OF assms(2)] by simp
  then show "key_requests (s1\<lparr>trace := trace s1 @ [blob_warning b e]\<rparr>) = key_requests s + 1"
    by (simp add: key_requests_def blob_warning_def)
qed

lemma upload_tracking_link_failure:
  assumes "find (\<lambda>b. py_in upload_id (name b)) (fst (list_blobs w (account_url bsc) c)) = Some b"
    and "generate_sas_url w bsc account c (name b) default_expiry_minutes s = (Inl e, s1)"
  shows "atna_scan w bsc account upload_id (c # rest) s = (Inl e, s1)"
    and "key_requests s1 = key_requests s + 1"
proof -
  show "atna_scan w bsc account upload_id (c # rest) s = (Inl e, s1)"
    using assms by (cases "list_blobs w (account_url bsc) c") (simp add: atna_link_def)
  show "key_requests s1 = key_requests s + 1"
    using generate_sas_url_state [OF assms(2)] by simp
qed

lemma processed_workbook_link_failure:
  assumes "list_blobs w (account_url bsc) c = (blobs, None)"
    and "f \<in> name ` set blobs"
    and "generate_sas_url w bsc account c f default_expiry_minutes s = (Inl e, s1)"
  shows "f5_scan_files w bsc account (c # cs) (f # fs) acc s = (Inl e, s1)"
    and "key_requests s1 = key_requests s + 1"
proof -
  from assms(2) obtain b where
    "find (\<lambda>b. name b = f) (filter (\<lambda>b. prefix f (name b)) blobs) = Some b"
    using f5_find_None [of f blobs]
    by (cases "find (\<lambda>b. name b = f) (filter (\<lambda>b. prefix f (name b)) blobs)") auto
  with assms show "f5_scan_files w bsc account (c # cs) (f # fs) acc s = (Inl e, s1)"
    by simp
  show "key_requests s1 = key_requests s + 1"
    using generate_sas_url_state [OF assms(3)] by simp
qed

text \<open>
  C9 (the code departs from the claim): with the credential call refused, a matching blob
  of the content-match application and a request for it, the view answers
  \<open>No matching data found\<close> with status 200: the failure of the link issuer is caught with
  the blob's other failures and never reaches the caller. For the upload-tracking and the
  processed-workbook application the exception escapes the view unhandled, after a single
  credential request. Only the recency application answers with the structured error
  \<open>Failed to generate download link\<close> and status 500, as the claim says every strategy
  should. No strategy asks for a credential twice for the same blob.
\<close>

theorem link_failure_outcomes:
  "fst (generate_sas_url denied_world (BlobServiceClient ''https://acct.blob.core.windows.net'')
          (Some ''acct'') (Some ''palo1'') ''east.csv'' default_expiry_minutes start)
     = Inl (ExternalError ''AuthorizationFailure'')
   \<and> csp_match denied_world (BlobServiceClient ''https://acct.blob.core.windows.net'')
        (normalise denied_world '' Acme '') (Some ''palo1'')
        \<lparr>name = ''east.csv'', last_modified = 3\<rparr>
   \<and> fst (download_latest_files denied_world
            \<lparr>application_name = Some ''PALOALTO'', company_id = Some ''c1''\<rparr> start)
       = Inr (JsonMessage ''No matching data found'', 200)
   \<and> key_requests (snd (download_latest_files denied_world
            \<lparr>application_name = Some ''PALOALTO'', company_id = Some ''c1''\<rparr> start)) = 2
   \<and> download_latest_files denied_world
        \<lparr>application_name = Some ''ATnA'', company_id = Some ''c1''\<rparr> start
       = (Inl (ExternalError ''AuthorizationFailure''),
          \<lparr>ticks = 2,
           trace = [KeyRequest ''https://acct.blob.core.windows.net'' 1000000 900000000]\<rparr>)
   \<and> download_latest_files denied_world
        \<lparr>application_name = Some ''F5'', company_id = Some ''c1''\<rparr> start
       = (Inl (ExternalError ''AuthorizationFailure''),
          \<lparr>ticks = 2,
           trace = [KeyRequest ''https://acct.blob.core.windows.net'' 1000000 900000000]\<rparr>)
   \<and> download_latest_files denied_world
        \<lparr>application_name = Some ''BYOW'', company_id = Some ''c1''\<rparr> start
       = (Inr (JsonError ''Failed to generate download link'', 500),
          \<lparr>ticks = 2,
           trace = [KeyRequest ''https://acct.blob.core.windows.net'' 1000000 900000000,
                    LogError ''Failed to generate SAS URL: AuthorizationFailure'']\<rparr>)"
  by (simp add: denied_world_def demo_world_def demo_env_def demo_records_def demo_uploads_def
        demo_blobs_def demo_download_def demo_read_csv_def start_def key_requests_def
        csp_match_def csp_column_def normalise_column_def normalise_def astype_str_def
        ascii_lower_def ascii_strip_def is_space_def lower_char_def
        download_latest_files_def dom_app_container_mapping get_blob_service_client_def
        mapping_lookup_def app_container_mapping_def handle_paloalto_download_def
        handle_atna_download_def handle_f5_checkpoint_download_def
        handle_latest_blob_download_def find_one_def find_one_latest_def files_to_download_def
        atna_link_def paloalto_try_def generate_sas_url_def default_expiry_minutes_def
        timedelta_minutes_def Let_def)

section \<open>Scans that find nothing\<close>

lemma f5_scan_containers_none:
  assumes "\<forall>c\<in>set cs. snd (list_blobs w (account_url bsc) c) = None
                       \<and> f \<notin> name ` set (fst (list_blobs w (account_url bsc) c))"
  shows "f5_scan_containers w bsc account f cs acc s = (Inr acc, s)"
  using assms
proof (induction cs)
  case Nil
  show ?case by simp
next
  case (Cons c cs)
  obtain blobs where lb: "list_blobs w (account_url bsc) c = (blobs, None)"
    using Cons.prems by (cases "list_blobs w (account_url bsc) c") auto
  with Cons.prems have "f \<notin> name ` set blobs" by simp
  then have "find (\<lambda>b. name b = f) (filter (\<lambda>b. prefix f (name b)) blobs) = None"
    by (simp add: f5_find_None)
  with lb Cons show ?case by simp
qed

lemma f5_scan_files_none:
  assumes "\<forall>c\<in>set cs. snd (list_blobs w (account_url bsc) c) = None
                       \<and> (\<forall>f\<in>set fs. f \<notin> name ` set (fst (list_blobs w (account_url bsc) c)))"
  shows "f5_scan_files w bsc account cs fs acc s = (Inr acc, s)"
  using assms
proof (induction fs)
  case Nil
  show ?case by simp
next
  case (Cons f fs)
  have "f5_scan_containers w bsc account f cs acc s = (Inr acc, s)"
    using Cons.prems by (intro f5_scan_containers_none) simp
  moreover have "f5_scan_files w bsc account cs fs acc s = (Inr acc, s)"
    using Cons.prems by (intro Cons.IH) simp
  ultimately show ?case by simp
qed

text \<open>
  C3: when the listings of the profile's containers end normally and the scan finds no
  match, the content-match handler answers \<open>No matching data found\<close> with status 200 and the
  recency handler answers \<open>No files found for company_id\<close> with status 200, both as
  messages and not as errors, whereas the upload-tracking handler answers the error
  \<open>No file found matching upload_id\<close> with status 404 and the processed-workbook handler
  the error \<open>No matching blobs found in containers\<close> with status 404. (For each handler the
  metadata it needs is present: the client's record with an account name, the latest
  upload record with an upload identifier, the client's record with a non-empty filename.)
\<close>

theorem empty_scan_outcomes:
  "(find_one (generic_docs w) cid = Some record
      \<and> connection_details record = detail # details
      \<and> detail ''csp_acct_name'' = Some raw_name \<and> raw_name \<noteq> []
      \<and> mapping_lookup w app_name = Inr info
      \<and> (\<forall>c\<in>set (containers info). snd (list_blobs w (account_url bsc) c) = None
            \<and> (\<forall>b\<in>set (fst (list_blobs w (account_url bsc) c)).
                  \<not> csp_match w bsc (normalise w raw_name) c b))
    \<longrightarrow> (\<exists>s'. handle_paloalto_download w bsc app_name cid s
                  = (Inr (JsonMessage ''No matching data found'', 200), s')))
   \<and> (mapping_lookup w app_name = Inr info
      \<and> (\<forall>c\<in>set (containers info). snd (list_blobs w (account_url bsc) c) = None
            \<and> matching_blobs w bsc cid c = [])
    \<longrightarrow> handle_latest_blob_download w bsc app_name cid s
          = (Inr (JsonMessage ''No files found for company_id'', 200), s))
   \<and> (find_one_latest (upload_docs w) cid = Some latest_record
      \<and> asset_add_uploads latest_record = Some (entry # entries)
      \<and> entry ''upload_id'' = Some upload_id
      \<and> mapping_lookup w app_name = Inr info
      \<and> (\<forall>c\<in>set (containers info). snd (list_blobs w (account_url bsc) c) = None
            \<and> matching_blobs w bsc upload_id c = [])
    \<longrightarrow> handle_atna_download w bsc app_name cid s
          = (Inr (JsonError ''No file found matching upload_id'', 404), s))
   \<and> (find_one (generic_docs w) cid = Some record
      \<and> truthy_files (files_to_download app_name record) \<noteq> []
      \<and> mapping_lookup w app_name = Inr info
      \<and> (\<forall>c\<in>set (containers info). snd (list_blobs w (account_url bsc) c) = None
            \<and> (\<forall>f\<in>set (truthy_files (files_to_download app_name record)).
                  f \<notin> name ` set (fst (list_blobs w (account_url bsc) c))))
    \<longrightarrow> handle_f5_checkpoint_download w bsc app_name cid s
          = (Inr (JsonError ''No matching blobs found in containers'', 404), s))"
proof (intro conjI impI)
  assume a: "find_one (generic_docs w) cid = Some record
      \<and> connection_details record = detail # details
      \<and> detail ''csp_acct_name'' = Some raw_name \<and> raw_name \<noteq> []
      \<and> mapping_lookup w app_name = Inr info
      \<and> (\<forall>c\<in>set (containers info). snd (list_blobs w (account_url bsc) c) = None
            \<and> (\<forall>b\<in>set (fst (list_blobs w (account_url bsc) c)).
                  \<not> csp_match w bsc (normalise w raw_name) c b))"
  let ?t = "normalise w raw_name"
  from a have r: "find_one (generic_docs w) cid = Some record"
    "connection_details record = detail # details"
    "detail ''csp_acct_name'' = Some raw_name" "raw_name \<noteq> []"
    "mapping_lookup w app_name = Inr info"
    by blast+
  from a have ok: "\<forall>c\<in>set (containers info). snd (list_blobs w (account_url bsc) c) = None"
    and none: "\<forall>c\<in>set (containers info). \<forall>b\<in>set (fst (list_blobs w (account_url bsc) c)).
                  \<not> csp_match w bsc ?t c b"
    by blast+
  from paloalto_scan_containers_props [OF ok, of "account_name info" ?t "[]" s]
  obtain ms s' where
    scan: "paloalto_scan_containers w bsc (account_name info) ?t (containers info) [] s
             = (Inr ([] @ ms), s')"
    and only: "\<forall>m\<in>set ms. \<exists>c\<in>set (containers info). \<exists>b\<in>set (fst (list_blobs w (account_url bsc) c)).
          csp_match w bsc ?t c b \<and> linked_to w bsc (account_name info) m (name b) c"
    by blast
  have "ms = []"
  proof (cases ms)
    case (Cons m rest)
    then have "m \<in> set ms" by simp
    with only none show ?thesis by blast
  qed simp
  with scan paloalto_handler_scan [OF r, of bsc s]
  have "handle_paloalto_download w bsc app_name cid s
          = (Inr (JsonMessage ''No matching data found'', 200), s')"
    by simp
  then show "\<exists>s'. handle_paloalto_download w bsc app_name cid s
                  = (Inr (JsonMessage ''No matching data found'', 200), s')" ..
next
  assume a: "mapping_lookup w app_name = Inr info
      \<and> (\<forall>c\<in>set (containers info). snd (list_blobs w (account_url bsc) c) = None
            \<and> matching_blobs w bsc cid c = [])"
  then have ok: "\<forall>c\<in>set (containers info). snd (list_blobs w (account_url bsc) c) = None"
    by blast
  from a have "candidates w bsc cid (containers info) = []"
    by (simp add: candidates_def)
  with latest_scan_py_max [OF ok, of cid None]
  have "latest_scan w bsc cid (containers info) None = Inr None" by simp
  with a show "handle_latest_blob_download w bsc app_name cid s
          = (Inr (JsonMessage ''No files found for company_id'', 200), s)"
    by (simp add: handle_latest_blob_download_def)
next
  assume a: "find_one_latest (upload_docs w) cid = Some latest_record
      \<and> asset_add_uploads latest_record = Some (entry # entries)
      \<and> entry ''upload_id'' = Some upload_id
      \<and> mapping_lookup w app_name = Inr info
      \<and> (\<forall>c\<in>set (containers info). snd (list_blobs w (account_url bsc) c) = None
            \<and> matching_blobs w bsc upload_id c = [])"
  then have "\<forall>c\<in>set (containers info). snd (list_blobs w (account_url bsc) c) = None
            \<and> matching_blobs w bsc upload_id c = []"
    by blast
  from atna_scan_skip [OF this, of "account_name info" "[]" s]
  have "atna_scan w bsc (account_name info) upload_id (containers info) s
          = (Inr (JsonError ''No file found matching upload_id'', 404), s)"
    by simp
  with a show "handle_atna_download w bsc app_name cid s
          = (Inr (JsonError ''No file found matching upload_id'', 404), s)"
    by (simp add: handle_atna_download_def)
next
  assume a: "find_one (generic_docs w) cid = Some record
      \<and> truthy_files (files_to_download app_name record) \<noteq> []
      \<and> mapping_lookup w app_name = Inr info
      \<and> (\<forall>c\<in>set (containers info). snd (list_blobs w (account_url bsc) c) = None
            \<and> (\<forall>f\<in>set (truthy_files (files_to_download app_name record)).
                  f \<notin> name ` set (fst (list_blobs w (account_url bsc) c))))"
  then have "\<forall>c\<in>set (containers info). snd (list_blobs w (account_url bsc) c) = None
            \<and> (\<forall>f\<in>set (truthy_files (files_to_download app_name record)).
                  f \<notin> name ` set (fst (list_blobs w (account_url bsc) c)))"
    by blast
  from f5_scan_files_none [OF this, of "account_name info" "[]" s]
  have "f5_scan_files w bsc (account_name info) (containers info)
          (truthy_files (files_to_download app_name record)) [] s = (Inr [], s)" .
  with a show "handle_f5_checkpoint_download w bsc app_name cid s
          = (Inr (JsonError ''No matching blobs found in containers'', 404), s)"
    by (simp add: handle_f5_checkpoint_download_def Let_def)
qed


theorem empty_scan_outcomes_witness:
  "(\<exists>s'. handle_paloalto_download demo_world (BlobServiceClient ''u'') ''PALOALTO'' ''c4'' start
            = (Inr (JsonMessage ''No matching data found'', 200), s'))
   \<and> handle_latest_blob_download demo_world (BlobServiceClient ''u'') ''BYOW'' ''zz'' start
       = (Inr (JsonMessage ''No files found for company_id'', 200), start)
   \<and> handle_atna_download demo_world (BlobServiceClient ''u'') ''ATnA'' ''c5'' start
       = (Inr (JsonError ''No file found matching upload_id'', 404), start)
   \<and> handle_f5_checkpoint_download demo_world (BlobServiceClient ''u'') ''F5'' ''c4'' start
       = (Inr (JsonError ''No matching blobs found in containers'', 404), start)"
proof -
  let ?bsc = "BlobServiceClient ''u''"
  let ?detail = "[''csp_acct_name'' \<mapsto> ''nobody'']"
  let ?rec = "\<lparr>ir_company_id = ''c4'',
        workbooks = [''license_asset_summary_workbook_processed'' \<mapsto> ''c4_lic.csv''],
        connection_details = [?detail]\<rparr>"
  let ?entry = "[''upload_id'' \<mapsto> ''u9'']"
  let ?up = "\<lparr>ur_company_id = ''c5'', created_on = 3, asset_add_uploads = Some [?entry]\<rparr>"
  let ?palo = "\<lparr>containers = [Some ''palo1'', Some ''palo2''], account_name = Some ''acct''\<rparr>"
  let ?byow = "\<lparr>containers = [Some ''byow''], account_name = Some ''acct''\<rparr>"
  let ?atna = "\<lparr>containers = [Some ''atna''], account_name = Some ''acct''\<rparr>"
  let ?f5 = "\<lparr>containers = [Some ''f5''], account_name = Some ''acct''\<rparr>"
  have target: "normalise demo_world ''nobody'' = ''nobody''"
    by (simp add: normalise_def demo_world_def ascii_lower_def ascii_strip_def is_space_def
          lower_char_def)
  have content: "find_one (generic_docs demo_world) ''c4'' = Some ?rec
      \<and> connection_details ?rec = ?detail # []
      \<and> ?detail ''csp_acct_name'' = Some ''nobody'' \<and> ''nobody'' \<noteq> []
      \<and> mapping_lookup demo_world ''PALOALTO'' = Inr ?palo
      \<and> (\<forall>c\<in>set (containers ?palo). snd (list_blobs demo_world (account_url ?bsc) c) = None
            \<and> (\<forall>b\<in>set (fst (list_blobs demo_world (account_url ?bsc) c)).
                  \<not> csp_match demo_world ?bsc (normalise demo_world ''nobody'') c b))"
    unfolding target
    by (simp add: find_one_def mapping_lookup_def app_container_mapping_def demo_world_def
          demo_env_def demo_records_def demo_blobs_def csp_match_def csp_column_def
          demo_download_def demo_read_csv_def normalise_column_def normalise_def astype_str_def
          ascii_lower_def ascii_strip_def is_space_def lower_char_def)
  have recency: "mapping_lookup demo_world ''BYOW'' = Inr ?byow
      \<and> (\<forall>c\<in>set (containers ?byow). snd (list_blobs demo_world (account_url ?bsc) c) = None
            \<and> matching_blobs demo_world ?bsc ''zz'' c = [])"
    by (simp add: mapping_lookup_def app_container_mapping_def demo_world_def demo_env_def
          demo_blobs_def matching_blobs_def)
  have upload: "find_one_latest (upload_docs demo_world) ''c5'' = Some ?up
      \<and> asset_add_uploads ?up = Some (?entry # [])
      \<and> ?entry ''upload_id'' = Some ''u9''
      \<and> mapping_lookup demo_world ''ATnA'' = Inr ?atna
      \<and> (\<forall>c\<in>set (containers ?atna). snd (list_blobs demo_world (account_url ?bsc) c) = None
            \<and> matching_blobs demo_world ?bsc ''u9'' c = [])"
    by (simp add: find_one_latest_def mapping_lookup_def app_container_mapping_def demo_world_def
          demo_env_def demo_uploads_def demo_blobs_def matching_blobs_def)
  have workbook: "find_one (generic_docs demo_world) ''c4'' = Some ?rec
      \<and> truthy_files (files_to_download ''F5'' ?rec) \<noteq> []
      \<and> mapping_lookup demo_world ''F5'' = Inr ?f5
      \<and> (\<forall>c\<in>set (containers ?f5). snd (list_blobs demo_world (account_url ?bsc) c) = None
            \<and> (\<forall>f\<in>set (truthy_files (files_to_download ''F5'' ?rec)).
                  f \<notin> name ` set (fst (list_blobs demo_world (account_url ?bsc) c))))"
    by (simp add: find_one_def files_to_download_def mapping_lookup_def app_container_mapping_def
          demo_world_def demo_env_def demo_records_def demo_blobs_def)
  note one = empty_scan_outcomes [THEN conjunct1, rule_format, OF content, of start]
  note two = empty_scan_outcomes [THEN conjunct2, THEN conjunct1, rule_format, OF recency, of start]
  note three = empty_scan_outcomes [THEN conjunct2, THEN conjunct2, THEN conjunct1, rule_format,
      OF upload, of start]
  note four = empty_scan_outcomes [THEN conjunct2, THEN conjunct2, THEN conjunct2, rule_format,
      OF workbook, of start]
  from one two three four show ?thesis by blast
qed

end
